theory Spec2Isabelle
  imports Complex_Main
begin

section \<open>Strings and Python values\<close>

text \<open>
  The program is a single Python module, \<^verbatim>\<open>bot.py\<close>. A Python \<^verbatim>\<open>str\<close> is a sequence of
  Unicode code points and \<^verbatim>\<open>len\<close> counts code points, so a string is modelled as the list
  of its code points. An ASCII literal of the source is written \<open>ascii ''...''\<close>; a
  literal with Cyrillic letters or emoji is given by its code points, with the line of
  the source it comes from.
\<close>

type_synonym pystr = "nat list"

definition ascii :: "string \<Rightarrow> pystr" where
  "ascii cs = map of_char cs"

text \<open>\<^verbatim>\<open>str(n)\<close> for a non-negative integer: its decimal digits.\<close>

function str_nat :: "nat \<Rightarrow> pystr" where
  "str_nat n = (if n < 10 then [48 + n] else str_nat (n div 10) @ [48 + n mod 10])"
  by pat_completeness auto
termination
  by (relation "measure id") auto

declare str_nat.simps [simp del]

definition str_int :: "int \<Rightarrow> pystr" where
  "str_int i = (if i < 0 then 45 # str_nat (nat (- i)) else str_nat (nat i))"

text \<open>\<^verbatim>\<open>s.endswith(suffix)\<close>.\<close>

definition endswith :: "pystr \<Rightarrow> pystr \<Rightarrow> bool" where
  "endswith s suffix =
     (length suffix \<le> length s \<and> drop (length s - length suffix) s = suffix)"

text \<open>The slice \<^verbatim>\<open>s[i:j]\<close> for \<open>0 \<le> i \<le> j\<close>; Python clips it at the end of \<open>s\<close>.\<close>

definition slice :: "'a list \<Rightarrow> nat \<Rightarrow> nat \<Rightarrow> 'a list" where
  "slice s i j = take (j - i) (drop i s)"

section \<open>Constants of the module\<close>

definition SYSTEM_PROMPT_1 :: pystr where
  \<comment> \<open>bot.py line 31, 118 code points\<close>
  "SYSTEM_PROMPT_1 =
    [1058, 1099, 32, 1087, 1088, 1086, 1092, 1077, 1089, 1089, 1080, 1086, 1085, 1072, 1083, 1100,
     1085, 1099, 1081, 32, 1072, 1085, 1072, 1083, 1080, 1090, 1080, 1082, 32, 1084, 1072, 1088,
     1082, 1077, 1090, 1087, 1083, 1077, 1081, 1089, 1086, 1074, 32, 1089, 32, 1086, 1087, 1099,
     1090, 1086, 1084, 32, 1088, 1072, 1073, 1086, 1090, 1099, 32, 1089, 32, 79, 122, 111,
     110, 44, 32, 87, 105, 108, 100, 98, 101, 114, 114, 105, 101, 115, 44, 32,
     1071, 1085, 1076, 1077, 1082, 1089, 46, 1052, 1072, 1088, 1082, 1077, 1090, 32, 1080, 32,
     1076, 1088, 1091, 1075, 1080, 1084, 1080, 32, 1087, 1083, 1072, 1090, 1092, 1086, 1088, 1084,
     1072, 1084, 1080, 46, 10, 10]"

definition SYSTEM_PROMPT_2 :: pystr where
  \<comment> \<open>bot.py line 33, 101 code points\<close>
  "SYSTEM_PROMPT_2 =
    [1058, 1074, 1086, 1103, 32, 1079, 1072, 1076, 1072, 1095, 1072, 32, 1072, 1085, 1072, 1083,
     1080, 1079, 1080, 1088, 1086, 1074, 1072, 1090, 1100, 32, 1074, 1099, 1075, 1088, 1091, 1079,
     1082, 1080, 32, 1076, 1072, 1085, 1085, 1099, 1093, 32, 1087, 1088, 1086, 1076, 1072, 1074,
     1094, 1086, 1074, 32, 1080, 32, 1076, 1072, 1074, 1072, 1090, 1100, 32, 1082, 1086, 1085,
     1082, 1088, 1077, 1090, 1085, 1099, 1077, 44, 32, 1087, 1088, 1072, 1082, 1090, 1080, 1095,
     1077, 1089, 1082, 1080, 1077, 32, 1088, 1077, 1082, 1086, 1084, 1077, 1085, 1076, 1072, 1094,
     1080, 1080, 46, 10, 10]"

definition SYSTEM_PROMPT_3 :: pystr where
  \<comment> \<open>bot.py line 35, 88 code points\<close>
  "SYSTEM_PROMPT_3 =
    [1050, 1086, 1075, 1076, 1072, 32, 1087, 1086, 1083, 1100, 1079, 1086, 1074, 1072, 1090, 1077,
     1083, 1100, 32, 1087, 1088, 1077, 1076, 1086, 1089, 1090, 1072, 1074, 1083, 1103, 1077, 1090,
     32, 1092, 1072, 1081, 1083, 1099, 32, 1089, 32, 1076, 1072, 1085, 1085, 1099, 1084, 1080,
     32, 1084, 1072, 1088, 1082, 1077, 1090, 1087, 1083, 1077, 1081, 1089, 1072, 44, 32, 1089,
     1083, 1077, 1076, 1091, 1081, 32, 1101, 1090, 1086, 1084, 1091, 32, 1072, 1083, 1075, 1086,
     1088, 1080, 1090, 1084, 1091, 58, 10, 10]"

definition SYSTEM_PROMPT_4 :: pystr where
  \<comment> \<open>bot.py lines 37 to 38, 127 code points\<close>
  "SYSTEM_PROMPT_4 =
    [49, 46, 32, 1055, 1054, 1044, 1058, 1042, 1045, 1056, 1046, 1044, 1045, 1053, 1048, 1045,
     32, 1055, 1054, 1051, 1059, 1063, 1045, 1053, 1048, 1071, 10, 1050, 1088, 1072, 1090, 1082,
     1086, 32, 1087, 1086, 1076, 1090, 1074, 1077, 1088, 1076, 1080, 44, 32, 1095, 1090, 1086,
     32, 1090, 1099, 32, 1087, 1086, 1083, 1091, 1095, 1080, 1083, 32, 1092, 1072, 1081, 1083,
     1099, 44, 32, 1087, 1086, 1085, 1103, 1083, 32, 1082, 1072, 1082, 1086, 1081, 32, 1087,
     1077, 1088, 1080, 1086, 1076, 32, 1086, 1085, 1080, 32, 1086, 1093, 1074, 1072, 1090, 1099,
     1074, 1072, 1102, 1090, 32, 1080, 32, 1082, 1072, 1082, 1080, 1077, 32, 1076, 1072, 1085,
     1085, 1099, 1077, 32, 1089, 1086, 1076, 1077, 1088, 1078, 1072, 1090, 46, 10, 10]"

definition SYSTEM_PROMPT_5 :: pystr where
  \<comment> \<open>bot.py line 40, 33 code points\<close>
  "SYSTEM_PROMPT_5 =
    [50, 46, 32, 1040, 1053, 1040, 1051, 1048, 1058, 1048, 1063, 1045, 1057, 1050, 1048, 1049,
     32, 1054, 1058, 1063, 1045, 1058, 32, 40, 1092, 1086, 1088, 1084, 1072, 1090, 41, 10,
     10]"

definition SYSTEM_PROMPT_6 :: pystr where
  \<comment> \<open>bot.py lines 42 to 44, 215 code points\<close>
  "SYSTEM_PROMPT_6 =
    [128640, 32, 1057, 1040, 1052, 1052, 1040, 1056, 1048, 32, 40, 1043, 1083, 1072, 1074, 1085,
     1086, 1077, 32, 1079, 1072, 32, 51, 48, 32, 1089, 1077, 1082, 1091, 1085, 1076, 41,
     10, 45, 32, 51, 45, 53, 32, 1082, 1083, 1102, 1095, 1077, 1074, 1099, 1093, 32,
     1074, 1099, 1074, 1086, 1076, 1086, 1074, 58, 32, 1095, 1090, 1086, 32, 1073, 1099, 1083,
     1086, 32, 1093, 1086, 1088, 1086, 1096, 1086, 44, 32, 1095, 1090, 1086, 32, 1087, 1083,
     1086, 1093, 1086, 44, 32, 1085, 1072, 32, 1095, 1090, 1086, 32, 1089, 1088, 1086, 1095,
     1085, 1086, 32, 1086, 1073, 1088, 1072, 1090, 1080, 1090, 1100, 32, 1074, 1085, 1080, 1084,
     1072, 1085, 1080, 1077, 10, 45, 32, 1055, 1088, 1080, 1084, 1077, 1088, 58, 32, 34,
     1042, 1099, 1088, 1091, 1095, 1082, 1072, 32, 43, 49, 53, 37, 44, 32, 1085, 1086,
     32, 1087, 1088, 1080, 1073, 1099, 1083, 1100, 32, 1091, 1087, 1072, 1083, 1072, 32, 1080,
     1079, 45, 1079, 1072, 32, 1083, 1086, 1075, 1080, 1089, 1090, 1080, 1082, 1080, 46, 32,
     1058, 1086, 1074, 1072, 1088, 32, 88, 32, 45, 32, 1093, 1080, 1090, 44, 32, 1090,
     1086, 1074, 1072, 1088, 32, 89, 32, 1089, 1098, 1077, 1076, 1072, 1077, 1090, 32, 1089,
     1082, 1083, 1072, 1076, 34, 10, 10]"

definition SYSTEM_PROMPT_7 :: pystr where
  \<comment> \<open>bot.py lines 46 to 48, 191 code points\<close>
  "SYSTEM_PROMPT_7 =
    [128161, 32, 1050, 1051, 1070, 1063, 1045, 1042, 1067, 1045, 32, 1056, 1045, 1050, 1054, 1052,
     1045, 1053, 1044, 1040, 1062, 1048, 1048, 32, 40, 1055, 1088, 1080, 1086, 1088, 1080, 1090,
     1080, 1079, 1080, 1088, 1086, 1074, 1072, 1085, 1085, 1099, 1077, 41, 10, 45, 32, 51,
     45, 53, 32, 1089, 1072, 1084, 1099, 1093, 32, 1074, 1072, 1078, 1085, 1099, 1093, 32,
     1076, 1077, 1081, 1089, 1090, 1074, 1080, 1081, 32, 1076, 1083, 1103, 32, 1074, 1099, 1087,
     1086, 1083, 1085, 1077, 1085, 1080, 1103, 32, 1087, 1088, 1103, 1084, 1086, 32, 1089, 1077,
     1081, 1095, 1072, 1089, 10, 45, 32, 1055, 1088, 1080, 1084, 1077, 1088, 58, 32, 34,
     49, 46, 32, 1044, 1086, 1079, 1072, 1082, 1072, 1079, 1072, 1090, 1100, 32, 1090, 1086,
     1074, 1072, 1088, 32, 88, 32, 40, 1086, 1089, 1090, 1072, 1090, 1086, 1082, 32, 1085,
     1072, 32, 53, 32, 1076, 1085, 1077, 1081, 41, 46, 32, 50, 46, 32, 1055, 1086,
     1076, 1085, 1103, 1090, 1100, 32, 1094, 1077, 1085, 1091, 32, 1085, 1072, 32, 1090, 1086,
     1074, 1072, 1088, 32, 90, 32, 1085, 1072, 32, 49, 48, 37, 34, 10, 10]"

definition SYSTEM_PROMPT_8 :: pystr where
  \<comment> \<open>bot.py line 50, 20 code points\<close>
  "SYSTEM_PROMPT_8 =
    [128202, 32, 1044, 1045, 1058, 1040, 1051, 1068, 1053, 1067, 1049, 32, 1056, 1040, 1047, 1041,
     1054, 1056, 10, 10]"

definition SYSTEM_PROMPT_9 :: pystr where
  \<comment> \<open>bot.py lines 52 to 56, 203 code points\<close>
  "SYSTEM_PROMPT_9 =
    [1060, 1080, 1085, 1072, 1085, 1089, 1086, 1074, 1099, 1077, 32, 1087, 1086, 1082, 1072, 1079,
     1072, 1090, 1077, 1083, 1080, 58, 10, 45, 32, 1054, 1073, 1086, 1088, 1086, 1090, 32,
     40, 1042, 1099, 1088, 1091, 1095, 1082, 1072, 41, 58, 32, 1086, 1073, 1097, 1072, 1103,
     32, 1089, 1091, 1084, 1084, 1072, 32, 1079, 1072, 1082, 1072, 1079, 1086, 1074, 10, 45,
     32, 1050, 1086, 1084, 1080, 1089, 1089, 1080, 1080, 32, 1080, 32, 1088, 1072, 1089, 1093,
     1086, 1076, 1099, 58, 32, 1095, 1090, 1086, 32, 1086, 1090, 1076, 1072, 1083, 1080, 32,
     1084, 1072, 1088, 1082, 1077, 1090, 1087, 1083, 1077, 1081, 1089, 1091, 10, 45, 32, 1063,
     1080, 1089, 1090, 1072, 1103, 32, 1087, 1088, 1080, 1073, 1099, 1083, 1100, 32, 1080, 32,
     1084, 1072, 1088, 1078, 1080, 1085, 1072, 1083, 1100, 1085, 1086, 1089, 1090, 1100, 58, 32,
     1088, 1077, 1072, 1083, 1100, 1085, 1099, 1081, 32, 1076, 1086, 1093, 1086, 1076, 10, 45,
     32, 1044, 1080, 1085, 1072, 1084, 1080, 1082, 1072, 58, 32, 1080, 1079, 1084, 1077, 1085,
     1077, 1085, 1080, 1103, 32, 118, 115, 32, 1087, 1088, 1077, 1076, 1099, 1076, 1091, 1097,
     1080, 1081, 32, 1087, 1077, 1088, 1080, 1086, 1076, 10, 10]"

definition SYSTEM_PROMPT_10 :: pystr where
  \<comment> \<open>bot.py lines 58 to 61, 191 code points\<close>
  "SYSTEM_PROMPT_10 =
    [65, 66, 67, 45, 1072, 1085, 1072, 1083, 1080, 1079, 32, 1090, 1086, 1074, 1072, 1088,
     1086, 1074, 58, 10, 45, 32, 1043, 1088, 1091, 1087, 1087, 1072, 32, 65, 32, 40,
     1051, 1086, 1082, 1086, 1084, 1086, 1090, 1080, 1074, 1099, 41, 58, 32, 1058, 1086, 1087,
     45, 53, 32, 1090, 1086, 1074, 1072, 1088, 1086, 1074, 44, 32, 1076, 1072, 1102, 1097,
     1080, 1093, 32, 56, 48, 37, 32, 1087, 1088, 1080, 1073, 1099, 1083, 1080, 10, 45,
     32, 1043, 1088, 1091, 1087, 1087, 1072, 32, 66, 32, 40, 1057, 1077, 1088, 1077, 1076,
     1085, 1103, 1082, 1080, 41, 58, 32, 1089, 1090, 1072, 1073, 1080, 1083, 1100, 1085, 1099,
     1077, 32, 1090, 1086, 1074, 1072, 1088, 1099, 10, 45, 32, 1043, 1088, 1091, 1087, 1087,
     1072, 32, 67, 32, 40, 1041, 1072, 1083, 1083, 1072, 1089, 1090, 41, 58, 32, 1085,
     1077, 1087, 1088, 1086, 1093, 1086, 1076, 1080, 1084, 1099, 1077, 32, 1090, 1086, 1074, 1072,
     1088, 1099, 44, 32, 1088, 1077, 1082, 1086, 1084, 1077, 1085, 1076, 1072, 1094, 1080, 1080,
     32, 1087, 1086, 32, 1076, 1077, 1081, 1089, 1090, 1074, 1080, 1103, 1084, 10, 10]"

definition SYSTEM_PROMPT_11 :: pystr where
  \<comment> \<open>bot.py lines 63 to 65, 139 code points\<close>
  "SYSTEM_PROMPT_11 =
    [1040, 1085, 1072, 1083, 1080, 1079, 32, 1079, 1072, 1087, 1072, 1089, 1086, 1074, 58, 10,
     45, 32, 79, 117, 116, 45, 111, 102, 45, 83, 116, 111, 99, 107, 32, 1088,
     1080, 1089, 1082, 1080, 58, 32, 1082, 1072, 1082, 1080, 1077, 32, 1090, 1086, 1074, 1072,
     1088, 1099, 32, 1079, 1072, 1082, 1086, 1085, 1095, 1072, 1090, 1089, 1103, 32, 1074, 32,
     1073, 1083, 1080, 1078, 1072, 1081, 1096, 1077, 1077, 32, 1074, 1088, 1077, 1084, 1103, 10,
     45, 32, 34, 1047, 1072, 1084, 1086, 1088, 1086, 1078, 1077, 1085, 1085, 1099, 1077, 32,
     1076, 1077, 1085, 1100, 1075, 1080, 34, 58, 32, 1090, 1086, 1074, 1072, 1088, 1099, 32,
     1089, 32, 1085, 1080, 1079, 1082, 1086, 1081, 32, 1086, 1073, 1086, 1088, 1072, 1095, 1080,
     1074, 1072, 1077, 1084, 1086, 1089, 1090, 1100, 1102, 10, 10]"

definition SYSTEM_PROMPT_12 :: pystr where
  \<comment> \<open>bot.py lines 67 to 69, 147 code points\<close>
  "SYSTEM_PROMPT_12 =
    [1055, 1088, 1086, 1073, 1083, 1077, 1084, 1085, 1099, 1077, 32, 1079, 1086, 1085, 1099, 58,
     10, 45, 32, 1042, 1086, 1079, 1074, 1088, 1072, 1090, 1099, 58, 32, 37, 32, 1074,
     1086, 1079, 1074, 1088, 1072, 1090, 1086, 1074, 44, 32, 1082, 1072, 1082, 1080, 1077, 32,
     1090, 1086, 1074, 1072, 1088, 1099, 32, 1074, 1086, 1079, 1074, 1088, 1072, 1097, 1072, 1102,
     1090, 32, 1095, 1072, 1089, 1090, 1086, 10, 45, 32, 34, 1050, 1088, 1072, 1089, 1085,
     1099, 1077, 32, 1092, 1083, 1072, 1075, 1080, 34, 58, 32, 1083, 1102, 1073, 1099, 1077,
     32, 1072, 1085, 1086, 1084, 1072, 1083, 1080, 1080, 32, 40, 1087, 1072, 1076, 1077, 1085,
     1080, 1077, 32, 1087, 1088, 1086, 1076, 1072, 1078, 44, 32, 1088, 1086, 1089, 1090, 32,
     1082, 1086, 1084, 1080, 1089, 1089, 1080, 1081, 44, 32, 1096, 1090, 1088, 1072, 1092, 1099,
     41, 10, 10]"

definition SYSTEM_PROMPT_13 :: pystr where
  \<comment> \<open>bot.py lines 71 to 75, 207 code points\<close>
  "SYSTEM_PROMPT_13 =
    [51, 46, 32, 1057, 1058, 1048, 1051, 1068, 32, 1050, 1054, 1052, 1052, 1059, 1053, 1048,
     1050, 1040, 1062, 1048, 1048, 10, 45, 32, 1055, 1080, 1096, 1080, 32, 1087, 1088, 1086,
     1089, 1090, 1099, 1084, 32, 34, 1095, 1077, 1083, 1086, 1074, 1077, 1095, 1077, 1089, 1082,
     1080, 1084, 34, 32, 1103, 1079, 1099, 1082, 1086, 1084, 44, 32, 1082, 1072, 1082, 32,
     1073, 1080, 1079, 1085, 1077, 1089, 45, 1087, 1072, 1088, 1090, 1085, 1077, 1088, 10, 45,
     32, 1054, 1073, 1098, 1103, 1089, 1085, 1103, 1081, 32, 1089, 1083, 1086, 1078, 1085, 1099,
     1077, 32, 1090, 1077, 1088, 1084, 1080, 1085, 1099, 32, 1087, 1088, 1086, 1089, 1090, 1086,
     10, 45, 32, 1053, 1077, 32, 1073, 1086, 1081, 1089, 1103, 32, 1087, 1083, 1086, 1093,
     1080, 1093, 32, 1085, 1086, 1074, 1086, 1089, 1090, 1077, 1081, 32, 45, 32, 1095, 1077,
     1089, 1090, 1085, 1086, 1089, 1090, 1100, 32, 1074, 1072, 1078, 1085, 1072, 10, 45, 32,
     1041, 1091, 1076, 1100, 32, 1087, 1088, 1086, 1072, 1082, 1090, 1080, 1074, 1077, 1085, 58,
     32, 1079, 1072, 1084, 1077, 1095, 1072, 1081, 32, 1074, 1086, 1079, 1084, 1086, 1078, 1085,
     1086, 1089, 1090, 1080, 32, 1080, 32, 1091, 1075, 1088, 1086, 1079, 1099, 10, 10]"

definition SYSTEM_PROMPT_14 :: pystr where
  \<comment> \<open>bot.py lines 77 to 82, 195 code points\<close>
  "SYSTEM_PROMPT_14 =
    [52, 46, 32, 1044, 1054, 1055, 46, 32, 1047, 1040, 1055, 1056, 1054, 1057, 1067, 10,
     1045, 1089, 1083, 1080, 32, 1087, 1086, 1083, 1100, 1079, 1086, 1074, 1072, 1090, 1077, 1083,
     1100, 32, 1087, 1088, 1086, 1089, 1080, 1090, 32, 1095, 1090, 1086, 45, 1090, 1086, 32,
     1090, 1080, 1087, 1072, 58, 10, 45, 32, 34, 1055, 1086, 1095, 1077, 1084, 1091, 32,
     1091, 1087, 1072, 1083, 1080, 32, 1087, 1088, 1086, 1076, 1072, 1078, 1080, 32, 1087, 1086,
     32, 1090, 1086, 1074, 1072, 1088, 1091, 32, 88, 34, 10, 45, 32, 34, 1057, 1088,
     1072, 1074, 1085, 1080, 32, 1076, 1074, 1077, 32, 1088, 1077, 1082, 1083, 1072, 1084, 1085,
     1099, 1077, 32, 1082, 1072, 1084, 1087, 1072, 1085, 1080, 1080, 34, 10, 45, 32, 34,
     1042, 1099, 1075, 1086, 1076, 1085, 1072, 32, 1083, 1080, 32, 1101, 1090, 1072, 32, 1072,
     1082, 1094, 1080, 1103, 34, 10, 45, 32, 1054, 1090, 1074, 1077, 1095, 1072, 1081, 32,
     1082, 1086, 1085, 1082, 1088, 1077, 1090, 1085, 1086, 44, 32, 1089, 32, 1088, 1072, 1089,
     1095, 1077, 1090, 1072, 1084, 1080, 32, 1080, 32, 1074, 1099, 1074, 1086, 1076, 1072, 1084,
     1080, 10, 10]"

definition SYSTEM_PROMPT_15 :: pystr where
  \<comment> \<open>bot.py line 84, 131 code points\<close>
  "SYSTEM_PROMPT_15 =
    [1045, 1089, 1083, 1080, 32, 1074, 32, 1076, 1072, 1085, 1085, 1099, 1093, 32, 1085, 1077,
     32, 1093, 1074, 1072, 1090, 1072, 1077, 1090, 32, 1080, 1085, 1092, 1086, 1088, 1084, 1072,
     1094, 1080, 1080, 32, 1076, 1083, 1103, 32, 1087, 1086, 1083, 1085, 1086, 1075, 1086, 32,
     1072, 1085, 1072, 1083, 1080, 1079, 1072, 32, 40, 1085, 1072, 1087, 1088, 1080, 1084, 1077,
     1088, 44, 32, 1089, 1077, 1073, 1077, 1089, 1090, 1086, 1080, 1084, 1086, 1089, 1090, 1100,
     41, 44, 32, 1089, 1082, 1072, 1078, 1080, 32, 1086, 1073, 32, 1101, 1090, 1086, 1084,
     32, 1103, 1074, 1085, 1086, 32, 1080, 32, 1087, 1086, 1087, 1088, 1086, 1089, 1080, 32,
     1085, 1077, 1076, 1086, 1089, 1090, 1072, 1102, 1097, 1080, 1077, 32, 1076, 1072, 1085, 1085,
     1099, 1077, 46]"

definition SYSTEM_PROMPT :: pystr where
  \<comment> \<open>bot.py lines 31 to 84: the paragraphs above, in order\<close>
  "SYSTEM_PROMPT =
     SYSTEM_PROMPT_1 @ SYSTEM_PROMPT_2 @ SYSTEM_PROMPT_3 @ SYSTEM_PROMPT_4 @
     SYSTEM_PROMPT_5 @ SYSTEM_PROMPT_6 @ SYSTEM_PROMPT_7 @ SYSTEM_PROMPT_8 @
     SYSTEM_PROMPT_9 @ SYSTEM_PROMPT_10 @ SYSTEM_PROMPT_11 @ SYSTEM_PROMPT_12 @
     SYSTEM_PROMPT_13 @ SYSTEM_PROMPT_14 @ SYSTEM_PROMPT_15"

definition ALL_MODELS_UNAVAILABLE :: pystr where
  \<comment> \<open>bot.py line 109, 43 code points\<close>
  "ALL_MODELS_UNAVAILABLE =
    [10060, 32, 1042, 1089, 1077, 32, 1084, 1086, 1076, 1077, 1083, 1080, 32, 1085, 1077, 1076,
     1086, 1089, 1090, 1091, 1087, 1085, 1099, 46, 32, 1055, 1086, 1089, 1083, 1077, 1076, 1085,
     1103, 1103, 32, 1086, 1096, 1080, 1073, 1082, 1072, 58, 32]"

definition GREETING :: pystr where
  \<comment> \<open>bot.py line 119, 319 code points\<close>
  "GREETING =
    [128075, 32, 1055, 1088, 1080, 1074, 1077, 1090, 33, 32, 1071, 32, 1074, 1072, 1096, 32,
     1072, 1085, 1072, 1083, 1080, 1090, 1080, 1082, 32, 1084, 1072, 1088, 1082, 1077, 1090, 1087,
     1083, 1077, 1081, 1089, 1086, 1074, 46, 10, 10, 1071, 32, 1087, 1086, 1084, 1086, 1075,
     1091, 32, 1074, 1072, 1084, 32, 1088, 1072, 1079, 1086, 1073, 1088, 1072, 1090, 1100, 1089,
     1103, 32, 1074, 32, 1074, 1099, 1075, 1088, 1091, 1079, 1082, 1072, 1093, 32, 1076, 1072,
     1085, 1085, 1099, 1093, 32, 1089, 32, 79, 122, 111, 110, 44, 32, 87, 105, 108,
     100, 98, 101, 114, 114, 105, 101, 115, 44, 32, 1071, 1085, 1076, 1077, 1082, 1089,
     46, 1052, 1072, 1088, 1082, 1077, 1090, 1072, 32, 1080, 32, 1076, 1088, 1091, 1075, 1080,
     1093, 32, 1087, 1083, 1072, 1090, 1092, 1086, 1088, 1084, 46, 10, 10, 1055, 1088, 1086,
     1089, 1090, 1086, 32, 1086, 1090, 1087, 1088, 1072, 1074, 1100, 1090, 1077, 32, 1084, 1085,
     1077, 58, 10, 128193, 32, 69, 120, 99, 101, 108, 32, 1080, 1083, 1080, 32, 67,
     83, 86, 32, 1092, 1072, 1081, 1083, 1099, 32, 1089, 32, 1076, 1072, 1085, 1085, 1099,
     1084, 1080, 32, 1084, 1072, 1088, 1082, 1077, 1090, 1087, 1083, 1077, 1081, 1089, 1072, 10,
     10067, 32, 1048, 1083, 1080, 32, 1085, 1072, 1087, 1080, 1096, 1080, 1090, 1077, 32, 1074,
     1086, 1087, 1088, 1086, 1089, 32, 1087, 1086, 32, 1076, 1072, 1085, 1085, 1099, 1084, 44,
     32, 1082, 1086, 1090, 1086, 1088, 1099, 1077, 32, 1074, 1099, 32, 1088, 1072, 1085, 1077,
     1077, 32, 1086, 1090, 1087, 1088, 1072, 1074, 1080, 1083, 1080, 10, 10, 1071, 32, 1087,
     1088, 1086, 1072, 1085, 1072, 1083, 1080, 1079, 1080, 1088, 1091, 1102, 32, 1074, 1089, 1105,
     32, 1080, 32, 1076, 1072, 1084, 32, 1082, 1086, 1085, 1082, 1088, 1077, 1090, 1085, 1099,
     1077, 32, 1088, 1077, 1082, 1086, 1084, 1077, 1085, 1076, 1072, 1094, 1080, 1080, 33]"

definition UNSUPPORTED_FORMAT :: pystr where
  \<comment> \<open>bot.py line 148, 55 code points\<close>
  "UNSUPPORTED_FORMAT =
    [10060, 32, 1055, 1086, 1076, 1076, 1077, 1088, 1078, 1080, 1074, 1072, 1102, 1090, 1089, 1103,
     32, 1090, 1086, 1083, 1100, 1082, 1086, 32, 1092, 1072, 1081, 1083, 1099, 32, 69, 120,
     99, 101, 108, 32, 40, 46, 120, 108, 115, 120, 44, 32, 46, 120, 108, 115,
     41, 32, 1080, 32, 67, 83, 86]"

definition PREVIEW_FILE :: pystr where
  \<comment> \<open>bot.py line 152, 6 code points\<close>
  "PREVIEW_FILE =
    [1060, 1072, 1081, 1083, 58, 32]"

definition PREVIEW_SIZE :: pystr where
  \<comment> \<open>bot.py line 153, 8 code points\<close>
  "PREVIEW_SIZE =
    [1056, 1072, 1079, 1084, 1077, 1088, 58, 32]"

definition PREVIEW_ROWS :: pystr where
  \<comment> \<open>bot.py line 153, 8 code points\<close>
  "PREVIEW_ROWS =
    [32, 1089, 1090, 1088, 1086, 1082, 44, 32]"

definition PREVIEW_COLS :: pystr where
  \<comment> \<open>bot.py line 153, 10 code points\<close>
  "PREVIEW_COLS =
    [32, 1082, 1086, 1083, 1086, 1085, 1086, 1082, 10, 10]"

definition PREVIEW_COLUMNS :: pystr where
  \<comment> \<open>bot.py line 154, 9 code points\<close>
  "PREVIEW_COLUMNS =
    [1050, 1086, 1083, 1086, 1085, 1082, 1080, 58, 32]"

definition PREVIEW_DATA :: pystr where
  \<comment> \<open>bot.py line 155, 8 code points\<close>
  "PREVIEW_DATA =
    [1044, 1072, 1085, 1085, 1099, 1077, 58, 10]"

definition ANALYZING :: pystr where
  \<comment> \<open>bot.py line 158, 57 code points\<close>
  "ANALYZING =
    [9203, 32, 1040, 1085, 1072, 1083, 1080, 1079, 1080, 1088, 1091, 1102, 32, 1076, 1072, 1085,
     1085, 1099, 1077, 46, 46, 46, 32, 40, 1101, 1090, 1086, 32, 1084, 1086, 1078, 1077,
     1090, 32, 1079, 1072, 1085, 1103, 1090, 1100, 32, 1085, 1077, 1082, 1086, 1090, 1086, 1088,
     1086, 1077, 32, 1074, 1088, 1077, 1084, 1103, 41]"

definition HERE_IS_MY_DATA :: pystr where
  \<comment> \<open>bot.py line 163, 32 code points\<close>
  "HERE_IS_MY_DATA =
    [1042, 1086, 1090, 32, 1084, 1086, 1080, 32, 1076, 1072, 1085, 1085, 1099, 1077, 32, 1089,
     32, 1084, 1072, 1088, 1082, 1077, 1090, 1087, 1083, 1077, 1081, 1089, 1072, 58, 10, 10]"

definition FILE_ERROR :: pystr where
  \<comment> \<open>bot.py line 182, 30 code points\<close>
  "FILE_ERROR =
    [10060, 32, 1054, 1096, 1080, 1073, 1082, 1072, 32, 1087, 1088, 1080, 32, 1086, 1073, 1088,
     1072, 1073, 1086, 1090, 1082, 1077, 32, 1092, 1072, 1081, 1083, 1072, 58, 32]"

definition SEARCHING :: pystr where
  \<comment> \<open>bot.py line 199, 14 code points\<close>
  "SEARCHING =
    [9203, 32, 1048, 1097, 1091, 32, 1086, 1090, 1074, 1077, 1090, 46, 46, 46]"

definition TEXT_ERROR :: pystr where
  \<comment> \<open>bot.py line 217, 10 code points\<close>
  "TEXT_ERROR =
    [10060, 32, 1054, 1096, 1080, 1073, 1082, 1072, 58, 32]"

definition CHECK_KEY_HINT :: pystr where
  \<comment> \<open>bot.py line 217, 42 code points\<close>
  "CHECK_KEY_HINT =
    [10, 1055, 1088, 1086, 1074, 1077, 1088, 1100, 1090, 1077, 32, 79, 80, 69, 78, 82,
     79, 85, 84, 69, 82, 95, 65, 80, 73, 95, 75, 69, 89, 32, 1074, 32,
     1092, 1072, 1081, 1083, 1077, 32, 46, 101, 110, 118]"

definition HISTORY_CLEARED :: pystr where
  \<comment> \<open>bot.py line 223, 50 code points\<close>
  "HISTORY_CLEARED =
    [128260, 32, 1048, 1089, 1090, 1086, 1088, 1080, 1103, 32, 1076, 1080, 1072, 1083, 1086, 1075,
     1072, 32, 1086, 1095, 1080, 1097, 1077, 1085, 1072, 46, 32, 1043, 1086, 1090, 1086, 1074,
     32, 1082, 32, 1085, 1086, 1074, 1086, 1084, 1091, 32, 1072, 1085, 1072, 1083, 1080, 1079,
     1091, 33]"

definition BULLET :: pystr where
  \<comment> \<open>bot.py line 227, 2 code points\<close>
  "BULLET =
    [8226, 32]"

definition AVAILABLE_MODELS :: pystr where
  \<comment> \<open>bot.py line 228, 21 code points\<close>
  "AVAILABLE_MODELS =
    [128203, 32, 1044, 1086, 1089, 1090, 1091, 1087, 1085, 1099, 1077, 32, 1084, 1086, 1076, 1077,
     1083, 1080, 58, 10, 10]"

definition NONE_HAS_NO_LEN :: pystr where
  \<comment> \<open>the message of the \<^verbatim>\<open>TypeError\<close> of \<^verbatim>\<open>len(None)\<close>\<close>
  "NONE_HAS_NO_LEN =
     ascii ''object of type '' @ [39] @ ascii ''NoneType'' @ [39] @ ascii '' has no len()''"

definition MODELS :: "pystr list" where
  \<comment> \<open>bot.py lines 20 to 26\<close>
  "MODELS =
    [ascii ''meta-llama/llama-2-70b-chat'',
     ascii ''meta-llama/llama-3-70b-instruct'',
     ascii ''mistralai/mistral-7b-instruct'',
     ascii ''meta-llama/llama-2-13b-chat'',
     ascii ''nousresearch/nous-hermes-2-mixtral-8x7b-dpo'']"

section \<open>Data\<close>

text \<open>
  A conversation record is the dictionary \<^verbatim>\<open>{"role": ..., "content": ...}\<close>. The content is
  optional because the handlers store whatever the fallback caller returned: the content
  of a completion, which the client library types as an optional string, or the \<^verbatim>\<open>None\<close> of
  its last line.
\<close>

record message =
  role :: pystr
  content :: "pystr option"

text \<open>
  Exceptions, with \<open>str_exn\<close> for \<^verbatim>\<open>str(e)\<close>. \<open>Exception\<close> is the one the module raises
  itself (line 109); \<open>External\<close> is any exception of a library call (the completion
  request, the download, the parser) and carries its description; the others are the
  built-in errors of the Python operations that the module uses.
\<close>

datatype exn =
    Exception pystr
  | External pystr
  | TypeError pystr
  | IndexError pystr
  | KeyError int

fun str_exn :: "exn \<Rightarrow> pystr" where
  "str_exn (Exception m) = m"
| "str_exn (External d) = d"
| "str_exn (TypeError m) = m"
| "str_exn (IndexError m) = m"
| "str_exn (KeyError k) = str_int k"

text \<open>
  A parsed table is used through three observations only: \<^verbatim>\<open>len(df)\<close>,
  \<^verbatim>\<open>df.columns.tolist()\<close> and \<^verbatim>\<open>df.to_string()\<close>. Column labels of a pandas table are
  Python values, not necessarily strings: \<^verbatim>\<open>read_excel\<close> yields an integer label for a
  header cell that holds a number.
\<close>

datatype label = StrLabel pystr | IntLabel int

record dataframe =
  columns :: "label list"
  nrows :: nat
  to_string :: pystr

text \<open>
  The outside world. \<open>create_completion env k model messages\<close> is the outcome of the
  completion request for \<open>model\<close> and \<open>messages\<close> when \<open>k\<close> requests were made before it:
  \<open>Inr\<close> the value of \<^verbatim>\<open>response.choices[0].message.content\<close>, a string or \<^verbatim>\<open>None\<close>, or
  \<open>Inl\<close> the description of the exception raised inside the \<^verbatim>\<open>try\<close>. The parsers take the
  downloaded bytes.
\<close>

record env =
  create_completion :: "nat \<Rightarrow> pystr \<Rightarrow> message list \<Rightarrow> pystr + pystr option"
  read_excel :: "nat list \<Rightarrow> pystr + dataframe"
  read_csv :: "nat list \<Rightarrow> pystr + dataframe"

text \<open>
  What a handler reads from the incoming \<^verbatim>\<open>Update\<close>: the user, the text of the message,
  the name of the attached file and the outcome of downloading it.
\<close>

record update =
  effective_user_id :: int
  message_text :: pystr
  document_file_name :: pystr
  document_download :: "pystr + nat list"

text \<open>
  The two globals of the module, \<^verbatim>\<open>current_model_index\<close> and \<^verbatim>\<open>user_conversations\<close>,
  and two traces that make the effects observable: the completion requests made so far
  (model and message list) and the texts sent with \<^verbatim>\<open>reply_text\<close>. The cursor is a
  natural number: it starts at 0 and is only ever assigned a remainder modulo the length
  of \<^verbatim>\<open>MODELS\<close>. Console output is left out, and sending a reply is taken to succeed.
\<close>

record bot_state =
  current_model_index :: nat
  user_conversations :: "int \<rightharpoonup> message list"
  requests :: "(pystr \<times> message list) list"
  replies :: "pystr list"

definition initial_state :: bot_state where
  "initial_state =
     \<lparr>current_model_index = 0, user_conversations = Map.empty, requests = [], replies = []\<rparr>"

section \<open>The fallback caller\<close>

text \<open>
  \<open>fallback_loop\<close> is the \<^verbatim>\<open>for attempt in range(len(MODELS))\<close> loop of
  \<^verbatim>\<open>call_ai_with_fallback\<close>, over the attempt numbers still to come; the empty list is
  the exit of the loop and the final \<^verbatim>\<open>return None, None\<close>. The index into \<^verbatim>\<open>MODELS\<close> is
  read outside the \<^verbatim>\<open>try\<close>, so an index out of range would propagate.
\<close>

definition system_message :: message where
  \<comment> \<open>\<^verbatim>\<open>{"role": "system", "content": SYSTEM_PROMPT}\<close>\<close>
  "system_message = \<lparr>role = ascii ''system'', content = Some SYSTEM_PROMPT\<rparr>"

fun fallback_loop ::
  "env \<Rightarrow> message list \<Rightarrow> nat list \<Rightarrow> bot_state \<Rightarrow>
     (exn + pystr option \<times> pystr option) \<times> bot_state" where
  "fallback_loop env messages [] s = (Inr (None, None), s)"
| "fallback_loop env messages (attempt # rest) s =
     (if current_model_index s < length MODELS then
        (let model = MODELS ! current_model_index s;
             messages_with_system = system_message # messages;
             s1 = s\<lparr>requests := requests s @ [(model, messages_with_system)]\<rparr>
         in case create_completion env (length (requests s)) model messages_with_system of
              Inr reply \<Rightarrow> (Inr (reply, Some model), s1)
            | Inl e \<Rightarrow>
                (let s2 = s1\<lparr>current_model_index :=
                              (current_model_index s1 + 1) mod length MODELS\<rparr>
                 in if attempt = length MODELS - 1
                    then (Inl (Exception (ALL_MODELS_UNAVAILABLE @ e)), s2)
                    else fallback_loop env messages rest s2))
      else (Inl (IndexError (ascii ''list index out of range'')), s))"

definition call_ai_with_fallback ::
  "env \<Rightarrow> message list \<Rightarrow> bot_state \<Rightarrow> (exn + pystr option \<times> pystr option) \<times> bot_state" where
  "call_ai_with_fallback env messages s = fallback_loop env messages [0..<length MODELS] s"

text \<open>
  Two abbreviations for stating what a call does. When a call starts in state \<open>s\<close>, its
  attempt number \<open>j\<close> (counted from 0) asks the model at position
  \<open>(current_model_index s + j) mod length MODELS\<close>: \<open>attempt_request\<close> is the request
  it makes and \<open>attempt_outcome\<close> what the outside world answers.
\<close>

definition attempt_request :: "nat \<Rightarrow> message list \<Rightarrow> nat \<Rightarrow> pystr \<times> message list" where
  "attempt_request c h j = (MODELS ! ((c + j) mod length MODELS), system_message # h)"

definition attempt_outcome ::
  "env \<Rightarrow> bot_state \<Rightarrow> message list \<Rightarrow> nat \<Rightarrow> pystr + pystr option" where
  "attempt_outcome env s h j =
     create_completion env (length (requests s) + j)
       (MODELS ! ((current_model_index s + j) mod length MODELS)) (system_message # h)"

section \<open>The response chunker\<close>

text \<open>
  Both message handlers send the reply with
  \<^verbatim>\<open>for i in range(0, len(assistant_message), 4096): reply_text(assistant_message[i:i+4096])\<close>.
  \<open>chunk_starts i n\<close> is \<^verbatim>\<open>range(i, n, 4096)\<close>, \<open>reply_chunks\<close> lists the slices that the
  loop sends, in order, and \<open>send_chunks\<close> is the loop itself.
\<close>

function chunk_starts :: "nat \<Rightarrow> nat \<Rightarrow> nat list" where
  "chunk_starts i n = (if i < n then i # chunk_starts (i + 4096) n else [])"
  by pat_completeness auto
termination
  by (relation "measure (\<lambda>(i, n). n - i)") auto

declare chunk_starts.simps [simp del]

definition reply_chunks :: "pystr \<Rightarrow> pystr list" where
  "reply_chunks m = map (\<lambda>i. slice m i (i + 4096)) (chunk_starts 0 (length m))"

definition reply_text :: "pystr \<Rightarrow> bot_state \<Rightarrow> bot_state" where
  "reply_text t s = s\<lparr>replies := replies s @ [t]\<rparr>"

definition send_chunks :: "pystr \<Rightarrow> bot_state \<Rightarrow> bot_state" where
  "send_chunks m s =
     foldl (\<lambda>s' i. reply_text (slice m i (i + 4096)) s') s (chunk_starts 0 (length m))"

section \<open>The spreadsheet preview\<close>

text \<open>
  \<^verbatim>\<open>sep.join(items)\<close> raises a \<^verbatim>\<open>TypeError\<close> at the first item that is not a string.
\<close>

fun label_strs :: "nat \<Rightarrow> label list \<Rightarrow> exn + pystr list" where
  "label_strs i [] = Inr []"
| "label_strs i (StrLabel name # ls) =
     (case label_strs (Suc i) ls of Inl e \<Rightarrow> Inl e | Inr names \<Rightarrow> Inr (name # names))"
| "label_strs i (IntLabel n # ls) =
     Inl (TypeError (ascii ''sequence item '' @ str_nat i @
                     ascii '': expected str instance, int found''))"

fun join_strs :: "pystr \<Rightarrow> pystr list \<Rightarrow> pystr" where
  "join_strs sep [] = []"
| "join_strs sep [x] = x"
| "join_strs sep (x # y # ys) = x @ sep @ join_strs sep (y # ys)"

definition join :: "pystr \<Rightarrow> label list \<Rightarrow> exn + pystr" where
  "join sep ls = (case label_strs 0 ls of Inl e \<Rightarrow> Inl e | Inr names \<Rightarrow> Inr (join_strs sep names))"

text \<open>Lines 152 to 155 of \<^verbatim>\<open>handle_file\<close>.\<close>

definition data_preview :: "pystr \<Rightarrow> dataframe \<Rightarrow> exn + pystr" where
  "data_preview filename df =
     (case join (ascii '', '') (columns df) of
        Inl e \<Rightarrow> Inl e
      | Inr names \<Rightarrow>
          Inr (PREVIEW_FILE @ filename @ [10, 10] @
               PREVIEW_SIZE @ str_nat (nrows df) @ PREVIEW_ROWS @
               str_nat (length (columns df)) @ PREVIEW_COLS @
               PREVIEW_COLUMNS @ names @ [10, 10] @
               PREVIEW_DATA @ to_string df))"

section \<open>The handlers\<close>

definition append_record :: "int \<Rightarrow> message \<Rightarrow> bot_state \<Rightarrow> exn + bot_state" where
  \<comment> \<open>\<^verbatim>\<open>user_conversations[user_id].append(record)\<close>\<close>
  "append_record user_id record s =
     (case user_conversations s user_id of
        None \<Rightarrow> Inl (KeyError user_id)
      | Some history \<Rightarrow>
          Inr (s\<lparr>user_conversations := (user_conversations s)(user_id \<mapsto> history @ [record])\<rparr>))"

definition ensure_history :: "int \<Rightarrow> bot_state \<Rightarrow> bot_state" where
  \<comment> \<open>\<^verbatim>\<open>if user_id not in user_conversations: user_conversations[user_id] = []\<close>\<close>
  "ensure_history user_id s =
     (if user_conversations s user_id = None
      then s\<lparr>user_conversations := (user_conversations s)(user_id \<mapsto> [])\<rparr> else s)"

text \<open>
  Lines 167 to 177 of \<^verbatim>\<open>handle_file\<close> and lines 202 to 212 of \<^verbatim>\<open>handle_text\<close> are the same
  statements inside the \<^verbatim>\<open>try\<close>: call the fallback caller with the user's history, append
  the reply to the history, send it in chunks. The result is the exception that the
  \<^verbatim>\<open>except\<close> clause of the handler receives, if any.
\<close>

definition ask_and_reply :: "env \<Rightarrow> int \<Rightarrow> bot_state \<Rightarrow> exn option \<times> bot_state" where
  "ask_and_reply env user_id s =
     (case user_conversations s user_id of
        None \<Rightarrow> (Some (KeyError user_id), s)
      | Some history \<Rightarrow>
          (case call_ai_with_fallback env history s of
             (Inl e, s1) \<Rightarrow> (Some e, s1)
           | (Inr (assistant_message, used_model), s1) \<Rightarrow>
               (case append_record user_id
                       \<lparr>role = ascii ''assistant'', content = assistant_message\<rparr> s1 of
                  Inl e \<Rightarrow> (Some e, s1)
                | Inr s2 \<Rightarrow>
                    (case assistant_message of
                       None \<Rightarrow> (Some (TypeError NONE_HAS_NO_LEN), s2)
                     | Some m \<Rightarrow> (None, send_chunks m s2)))))"

text \<open>
  Four abbreviations for stating what the two message handlers do. \<open>history_of s u\<close> is
  the history of \<open>u\<close>, empty for a user without one. \<open>asking notice u r s\<close> is the state in
  which a handler invokes the fallback caller: the notice is sent and the record \<open>r\<close> is at
  the end of the history of \<open>u\<close>. For a result of the fallback caller, \<open>reply_records\<close> are
  the records that the handler then appends and \<open>reply_texts report\<close> the texts that it then
  sends, where \<open>report e\<close> is the message of its \<^verbatim>\<open>except\<close> clause for the exception \<open>e\<close>.
\<close>

definition history_of :: "bot_state \<Rightarrow> int \<Rightarrow> message list" where
  "history_of s u = (case user_conversations s u of None \<Rightarrow> [] | Some h \<Rightarrow> h)"

definition asking :: "pystr \<Rightarrow> int \<Rightarrow> message \<Rightarrow> bot_state \<Rightarrow> bot_state" where
  "asking notice u r s =
     (reply_text notice s)\<lparr>user_conversations :=
        (user_conversations s)(u \<mapsto> history_of s u @ [r])\<rparr>"

fun reply_records :: "exn + pystr option \<times> pystr option \<Rightarrow> message list" where
  "reply_records (Inl e) = []"
| "reply_records (Inr (assistant_message, used_model)) =
     [\<lparr>role = ascii ''assistant'', content = assistant_message\<rparr>]"

fun reply_texts :: "(exn \<Rightarrow> pystr) \<Rightarrow> exn + pystr option \<times> pystr option \<Rightarrow> pystr list" where
  "reply_texts report (Inl e) = [report e]"
| "reply_texts report (Inr (None, used_model)) = [report (TypeError NONE_HAS_NO_LEN)]"
| "reply_texts report (Inr (Some m, used_model)) = reply_chunks m"


definition report_text_error :: "exn \<Rightarrow> pystr" where
  \<comment> \<open>the message of line 217\<close>
  "report_text_error e = TEXT_ERROR @ str_exn e @ CHECK_KEY_HINT"

definition start :: "update \<Rightarrow> bot_state \<Rightarrow> bot_state" where
  "start upd s =
     (let user_id = effective_user_id upd
      in reply_text GREETING
           (s\<lparr>user_conversations := (user_conversations s)(user_id \<mapsto> [])\<rparr>))"

text \<open>The body of the \<^verbatim>\<open>try\<close> of \<^verbatim>\<open>handle_file\<close>, lines 135 to 179.\<close>

definition handle_file_try :: "env \<Rightarrow> update \<Rightarrow> bot_state \<Rightarrow> exn option \<times> bot_state" where
  "handle_file_try env upd s =
     (let user_id = effective_user_id upd
      in case document_download upd of
           Inl d \<Rightarrow> (Some (External d), s)
         | Inr file_bytes \<Rightarrow>
             (let filename = document_file_name upd
              in case (if endswith filename (ascii ''.xlsx'') \<or> endswith filename (ascii ''.xls'')
                       then Some (read_excel env file_bytes)
                       else if endswith filename (ascii ''.csv'')
                       then Some (read_csv env file_bytes)
                       else None) of
                   None \<Rightarrow> (None, reply_text UNSUPPORTED_FORMAT s)
                 | Some (Inl d) \<Rightarrow> (Some (External d), s)
                 | Some (Inr df) \<Rightarrow>
                     (case data_preview filename df of
                        Inl e \<Rightarrow> (Some e, s)
                      | Inr preview \<Rightarrow>
                          (case append_record user_id
                                  \<lparr>role = ascii ''user'',
                                   content = Some (HERE_IS_MY_DATA @ preview)\<rparr>
                                  (reply_text ANALYZING s) of
                             Inl e \<Rightarrow> (Some e, reply_text ANALYZING s)
                           | Inr s1 \<Rightarrow> ask_and_reply env user_id s1))))"

definition handle_file :: "env \<Rightarrow> update \<Rightarrow> bot_state \<Rightarrow> bot_state" where
  "handle_file env upd s =
     (let user_id = effective_user_id upd;
          s1 = ensure_history user_id s
      in case handle_file_try env upd s1 of
           (Some e, s2) \<Rightarrow> reply_text (FILE_ERROR @ str_exn e) s2
         | (None, s2) \<Rightarrow> s2)"

text \<open>
  In \<^verbatim>\<open>handle_text\<close> the first \<^verbatim>\<open>append\<close> is outside the \<^verbatim>\<open>try\<close>: an exception there would
  leave the handler with the state as it is. The history exists at that point, so the
  branch is never taken.
\<close>

definition handle_text :: "env \<Rightarrow> update \<Rightarrow> bot_state \<Rightarrow> bot_state" where
  "handle_text env upd s =
     (let user_id = effective_user_id upd;
          user_text = message_text upd;
          s1 = ensure_history user_id s
      in case append_record user_id \<lparr>role = ascii ''user'', content = Some user_text\<rparr> s1 of
           Inl e \<Rightarrow> s1
         | Inr s2 \<Rightarrow>
             (case ask_and_reply env user_id (reply_text SEARCHING s2) of
                (Some e, s3) \<Rightarrow> reply_text (TEXT_ERROR @ str_exn e @ CHECK_KEY_HINT) s3
              | (None, s3) \<Rightarrow> s3))"

definition reset :: "update \<Rightarrow> bot_state \<Rightarrow> bot_state" where
  "reset upd s =
     (let user_id = effective_user_id upd
      in reply_text HISTORY_CLEARED
           (s\<lparr>user_conversations := (user_conversations s)(user_id \<mapsto> [])\<rparr>))"

definition models :: "update \<Rightarrow> bot_state \<Rightarrow> bot_state" where
  "models upd s =
     (let models_list = join_strs [10] (map (\<lambda>m. BULLET @ m) MODELS)
      in reply_text (AVAILABLE_MODELS @ models_list) s)"

text \<open>
  The registration of the handlers in \<^verbatim>\<open>main\<close>: an incoming event goes to one handler.
  \<open>run\<close> handles a sequence of events, and \<open>calls\<close> is a sequence of invocations of
  the fallback caller alone.
\<close>

datatype event =
    CommandStart update
  | CommandReset update
  | CommandModels update
  | Document update
  | Text update

fun dispatch :: "env \<Rightarrow> event \<Rightarrow> bot_state \<Rightarrow> bot_state" where
  "dispatch env (CommandStart upd) s = start upd s"
| "dispatch env (CommandReset upd) s = reset upd s"
| "dispatch env (CommandModels upd) s = models upd s"
| "dispatch env (Document upd) s = handle_file env upd s"
| "dispatch env (Text upd) s = handle_text env upd s"

fun run :: "env \<Rightarrow> event list \<Rightarrow> bot_state \<Rightarrow> bot_state" where
  "run env [] s = s"
| "run env (e # es) s = run env es (dispatch env e s)"

fun calls :: "env \<Rightarrow> message list list \<Rightarrow> bot_state \<Rightarrow> bot_state" where
  "calls env [] s = s"
| "calls env (messages # rest) s = calls env rest (snd (call_ai_with_fallback env messages s))"

section \<open>Scenarios\<close>

text \<open>
  Concrete worlds and events for the examples below. In \<open>scenario n t p\<close> the first \<open>n\<close>
  completion requests fail with the description \<^verbatim>\<open>timeout\<close>, every later one answers
  with the content \<open>t\<close>, and both parsers return \<open>p\<close>.
\<close>

definition scenario :: "nat \<Rightarrow> pystr option \<Rightarrow> pystr + dataframe \<Rightarrow> env" where
  "scenario n t p =
     \<lparr>create_completion =
        (\<lambda>k model messages. if k < n then Inl (ascii ''timeout'') else Inr t),
      read_excel = (\<lambda>file_bytes. p),
      read_csv = (\<lambda>file_bytes. p)\<rparr>"

definition state_at :: "nat \<Rightarrow> bot_state" where
  \<comment> \<open>the initial state with the cursor moved to position \<open>c\<close>\<close>
  "state_at c = initial_state\<lparr>current_model_index := c\<rparr>"

definition no_table :: "pystr + dataframe" where
  "no_table = Inl (ascii ''no table'')"

definition text_update :: "int \<Rightarrow> pystr \<Rightarrow> update" where
  "text_update user_id t =
     \<lparr>effective_user_id = user_id, message_text = t,
      document_file_name = [], document_download = Inl []\<rparr>"

definition file_update :: "int \<Rightarrow> pystr \<Rightarrow> update" where
  "file_update user_id filename =
     \<lparr>effective_user_id = user_id, message_text = [],
      document_file_name = filename, document_download = Inr [80, 75, 3, 4]\<rparr>"

text \<open>The state after user 7 sent the text \<^verbatim>\<open>old\<close> and the first model answered \<^verbatim>\<open>ok\<close>.\<close>

definition chatted :: bot_state where
  "chatted =
     handle_text (scenario 0 (Some (ascii ''ok'')) no_table) (text_update 7 (ascii ''old''))
       initial_state"

text \<open>A table of 10 rows whose three header cells hold the numbers 2023, 2024 and 2025.\<close>

definition yearly_table :: dataframe where
  "yearly_table =
     \<lparr>columns = [IntLabel 2023, IntLabel 2024, IntLabel 2025], nrows = 10,
      to_string = ascii ''(table)''\<rparr>"



section \<open>Properties of the chunker\<close>

lemma chunk_starts_concat:
  "concat (map (\<lambda>i. slice m i (i + 4096)) (chunk_starts i (length m))) = drop i m"
proof (induction i "length m" rule: chunk_starts.induct)
  case (1 i)
  show ?case
  proof (cases "i < length m")
    case True
    have "take 4096 (drop i m) @ drop (i + 4096) m = drop i m"
      by (metis add.commute append_take_drop_id drop_drop)
    with True 1 show ?thesis
      by (subst chunk_starts.simps) (simp add: slice_def)
  next
    case False
    then show ?thesis
      by (subst chunk_starts.simps) simp
  qed
qed

lemma chunk_starts_length:
  "length (chunk_starts i n) = (n - i + 4095) div 4096"
proof (induction i n rule: chunk_starts.induct)
  case (1 i n)
  show ?case
  proof (cases "i < n")
    case True
    then have "length (chunk_starts i n) = Suc ((n - (i + 4096) + 4095) div 4096)"
      using 1 by (subst chunk_starts.simps) simp
    also have "\<dots> = (n - i + 4095) div 4096"
    proof (cases "i + 4096 \<le> n")
      case True
      then have "n - i + 4095 = (n - (i + 4096) + 4095) + 4096"
        by simp
      then show ?thesis
        by (simp only: div_add_self2)
    next
      case False
      with \<open>i < n\<close> have "n - (i + 4096) = 0" and "4096 \<le> n - i + 4095" and "n - i + 4095 < 2 * 4096"
        by simp_all
      then show ?thesis
        by (simp add: le_div_geq)
    qed
    finally show ?thesis .
  next
    case False
    then show ?thesis
      by (subst chunk_starts.simps) simp
  qed
qed

lemma chunk_starts_nth:
  "k < length (chunk_starts i n) \<Longrightarrow> chunk_starts i n ! k = i + k * 4096"
proof (induction i n arbitrary: k rule: chunk_starts.induct)
  case (1 i n)
  show ?case
  proof (cases "i < n")
    case True
    then have unfold: "chunk_starts i n = i # chunk_starts (i + 4096) n"
      by (subst chunk_starts.simps) simp
    show ?thesis
    proof (cases k)
      case 0
      then show ?thesis by (simp add: unfold)
    next
      case (Suc j)
      with 1 True unfold show ?thesis by simp
    qed
  next
    case False
    then have "chunk_starts i n = []"
      by (subst chunk_starts.simps) simp
    with "1.prems" show ?thesis by simp
  qed
qed

lemma replies_send_chunks_aux:
  "replies (foldl (\<lambda>s' i. reply_text (slice m i (i + 4096)) s') s is)
     = replies s @ map (\<lambda>i. slice m i (i + 4096)) is"
  by (induction "is" arbitrary: s) (simp_all add: reply_text_def)

lemma replies_send_chunks: "replies (send_chunks m s) = replies s @ reply_chunks m"
  by (simp add: send_chunks_def reply_chunks_def replies_send_chunks_aux)

text \<open>
  Claim C3. For a reply \<open>m\<close> of length \<open>L\<close> the chunker sends exactly \<open>\<lceil>L / 4096\<rceil>\<close>
  chunks; each has at most 4096 code points; chunk number \<open>k\<close> is the slice of \<open>m\<close> from
  \<open>4096 * k\<close> to \<open>4096 * k + 4096\<close>, so the chunks are in order and do not overlap; their
  concatenation is \<open>m\<close>; and the loop of the handlers sends exactly these chunks, in this
  order, after what was sent before.
\<close>

theorem reply_chunks_cover:
  "int (length (reply_chunks m)) = \<lceil>real (length m) / 4096\<rceil> \<and>
   (\<forall>c \<in> set (reply_chunks m). length c \<le> 4096) \<and>
   (\<forall>k < length (reply_chunks m). reply_chunks m ! k = slice m (4096 * k) (4096 * k + 4096)) \<and>
   concat (reply_chunks m) = m \<and>
   replies (send_chunks m s) = replies s @ reply_chunks m"
proof (intro conjI)
  have "length (reply_chunks m) = (length m + 4095) div 4096"
    by (simp add: reply_chunks_def chunk_starts_length)
  moreover have "int ((length m + 4095) div 4096) = \<lceil>real (length m) / 4096\<rceil>"
  proof -
    define q r where "q = length m div 4096" and "r = length m mod 4096"
    then have L: "length m = 4096 * q + r" and r: "r < 4096"
      by simp_all
    show ?thesis
    proof (cases "r = 0")
      case True
      with L show ?thesis by simp
    next
      case False
      with r have "(length m + 4095) div 4096 = q + 1"
        unfolding L by simp
      moreover have "\<lceil>real (length m) / 4096\<rceil> = int q + 1"
      proof (rule ceiling_unique)
        show "of_int (int q + 1) - 1 < real (length m) / 4096"
          using False unfolding L by (simp add: field_simps)
        show "real (length m) / 4096 \<le> of_int (int q + 1)"
          using r unfolding L by (simp add: field_simps)
      qed
      ultimately show ?thesis by simp
    qed
  qed
  ultimately show "int (length (reply_chunks m)) = \<lceil>real (length m) / 4096\<rceil>"
    by simp
next
  show "\<forall>c \<in> set (reply_chunks m). length c \<le> 4096"
    by (auto simp: reply_chunks_def slice_def)
next
  show "\<forall>k < length (reply_chunks m).
          reply_chunks m ! k = slice m (4096 * k) (4096 * k + 4096)"
    by (simp add: reply_chunks_def chunk_starts_nth mult.commute)
next
  show "concat (reply_chunks m) = m"
    using chunk_starts_concat [of m 0] by (simp add: reply_chunks_def)
next
  show "replies (send_chunks m s) = replies s @ reply_chunks m"
    by (rule replies_send_chunks)
qed

theorem reply_chunks_cover_witness:
  "length (reply_chunks (replicate 5000 65)) = 2 \<and>
   length (reply_chunks (replicate 5000 65) ! 1) \<le> 4096 \<and>
   reply_chunks (replicate 5000 65) ! 1 = slice (replicate 5000 65) 4096 8192 \<and>
   concat (reply_chunks (replicate 5000 65)) = replicate 5000 65"
proof -
  note cover = reply_chunks_cover [of "replicate 5000 65" initial_state]
  from cover have len: "length (reply_chunks (replicate 5000 65)) = 2"
    by simp
  moreover from cover len have "length (reply_chunks (replicate 5000 65) ! 1) \<le> 4096"
    by (metis nth_mem one_less_numeral_iff semiring_norm(76))
  moreover from cover len
  have "reply_chunks (replicate 5000 65) ! 1 = slice (replicate 5000 65) 4096 8192"
    by simp
  moreover from cover have "concat (reply_chunks (replicate 5000 65)) = replicate 5000 65"
    by blast
  ultimately show ?thesis by blast
qed

section \<open>Properties of the fallback caller\<close>

lemma length_MODELS: "length MODELS = 5"
  by (simp add: MODELS_def)

lemma distinct_MODELS: "distinct MODELS"
  by (simp add: MODELS_def ascii_def)

lemma fallback_loop_Cons_fail:
  assumes "current_model_index s < length MODELS"
    and "create_completion env (length (requests s)) (MODELS ! current_model_index s)
           (system_message # h) = Inl e"
  shows "fallback_loop env h (a # rest) s =
     (let s2 = s\<lparr>requests := requests s @ [(MODELS ! current_model_index s, system_message # h)],
                 current_model_index := (current_model_index s + 1) mod length MODELS\<rparr>
      in if a = length MODELS - 1 then (Inl (Exception (ALL_MODELS_UNAVAILABLE @ e)), s2)
         else fallback_loop env h rest s2)"
  using assms by (simp add: Let_def)

lemma fallback_loop_Cons_ok:
  assumes "current_model_index s < length MODELS"
    and "create_completion env (length (requests s)) (MODELS ! current_model_index s)
           (system_message # h) = Inr t"
  shows "fallback_loop env h (a # rest) s =
     (Inr (t, Some (MODELS ! current_model_index s)),
      s\<lparr>requests := requests s @ [(MODELS ! current_model_index s, system_message # h)]\<rparr>)"
  using assms by (simp add: Let_def)

lemma shift_requests:
  assumes "current_model_index s < length MODELS"
    and "s2 = s\<lparr>requests := requests s @ [(MODELS ! current_model_index s, system_message # h)],
                 current_model_index := (current_model_index s + 1) mod length MODELS\<rparr>"
  shows "requests s2 @ map (attempt_request (current_model_index s2) h) [0..<n]
      = requests s @ map (attempt_request (current_model_index s) h) [0..<Suc n]"
proof -
  have "requests s2 = requests s @ [attempt_request (current_model_index s) h 0]"
    using assms by (simp add: attempt_request_def)
  moreover have "attempt_request (current_model_index s2) h
      = (\<lambda>j. attempt_request (current_model_index s) h (Suc j))"
    using assms(2) by (auto simp: attempt_request_def mod_add_left_eq)
  ultimately show ?thesis
    by (simp only: map_upt_Suc append_assoc append_Cons append_Nil)
qed

lemma fallback_loop_success:
  assumes "a + K < length MODELS" and "current_model_index s < length MODELS"
    and "\<forall>j<K. isl (attempt_outcome env s h j)"
    and "attempt_outcome env s h K = Inr t"
  shows "fallback_loop env h [a..<length MODELS] s =
     (Inr (t, Some (MODELS ! ((current_model_index s + K) mod length MODELS))),
      s\<lparr>requests := requests s @ map (attempt_request (current_model_index s) h) [0..<Suc K],
        current_model_index := (current_model_index s + K) mod length MODELS\<rparr>)"
  using assms
proof (induction K arbitrary: a s)
  case 0
  then have "a < length MODELS" by simp
  then have upt: "[a..<length MODELS] = a # [Suc a..<length MODELS]"
    by (rule upt_conv_Cons)
  from 0 have ok: "create_completion env (length (requests s)) (MODELS ! current_model_index s)
           (system_message # h) = Inr t"
    by (simp add: attempt_outcome_def)
  have "fallback_loop env h [a..<length MODELS] s =
     (Inr (t, Some (MODELS ! current_model_index s)),
      s\<lparr>requests := requests s @ [(MODELS ! current_model_index s, system_message # h)]\<rparr>)"
    by (simp only: upt fallback_loop_Cons_ok [OF 0(2) ok])
  then show ?case
    using 0(2) by (simp add: attempt_request_def)
next
  case (Suc K)
  let ?c = "current_model_index s"
  let ?N = "length MODELS"
  from Suc.prems have a: "a < ?N" "a \<noteq> ?N - 1" by simp_all
  then have upt: "[a..<?N] = a # [Suc a..<?N]"
    by (simp add: upt_conv_Cons)
  from Suc.prems(3) have "isl (attempt_outcome env s h 0)" by simp
  then obtain e where fail: "create_completion env (length (requests s)) (MODELS ! ?c)
           (system_message # h) = Inl e"
    using Suc.prems(2) by (auto simp: attempt_outcome_def isl_def)
  define s2 where "s2 = s\<lparr>requests := requests s @ [(MODELS ! ?c, system_message # h)],
                 current_model_index := (?c + 1) mod ?N\<rparr>"
  have step: "fallback_loop env h [a..<?N] s = fallback_loop env h [Suc a..<?N] s2"
    using a by (simp only: upt fallback_loop_Cons_fail [OF Suc.prems(2) fail] Let_def s2_def if_False)
  have out: "attempt_outcome env s2 h j = attempt_outcome env s h (Suc j)" for j
    by (simp add: attempt_outcome_def s2_def mod_add_left_eq)
  have req: "attempt_request (current_model_index s2) h j = attempt_request ?c h (Suc j)" for j
    by (simp add: attempt_request_def s2_def mod_add_left_eq)
  have IH: "fallback_loop env h [Suc a..<?N] s2 =
     (Inr (t, Some (MODELS ! ((current_model_index s2 + K) mod ?N))),
      s2\<lparr>requests := requests s2 @ map (attempt_request (current_model_index s2) h) [0..<Suc K],
        current_model_index := (current_model_index s2 + K) mod ?N\<rparr>)"
  proof (rule Suc.IH)
    show "Suc a + K < ?N" using Suc.prems(1) by simp
    show "current_model_index s2 < ?N" by (simp add: s2_def length_MODELS)
    show "\<forall>j<K. isl (attempt_outcome env s2 h j)" using Suc.prems(3) by (simp add: out)
    show "attempt_outcome env s2 h K = Inr t" using Suc.prems(4) by (simp add: out)
  qed
  have idx: "(current_model_index s2 + K) mod ?N = (?c + Suc K) mod ?N"
    by (simp add: s2_def mod_add_left_eq)
  have reqs: "requests s2 @ map (attempt_request (current_model_index s2) h) [0..<Suc K]
      = requests s @ map (attempt_request ?c h) [0..<Suc (Suc K)]"
    using Suc.prems(2) by (rule shift_requests [OF _ s2_def])
  show ?case
    unfolding step IH idx reqs by (simp add: s2_def)
qed


lemma fallback_loop_all_fail:
  assumes "a < length MODELS" and "current_model_index s < length MODELS"
    and "\<forall>j<length MODELS - a. isl (attempt_outcome env s h j)"
  shows "fallback_loop env h [a..<length MODELS] s =
     (Inl (Exception (ALL_MODELS_UNAVAILABLE @
             projl (attempt_outcome env s h (length MODELS - a - 1)))),
      s\<lparr>requests := requests s @
            map (attempt_request (current_model_index s) h) [0..<length MODELS - a],
        current_model_index := (current_model_index s + (length MODELS - a)) mod length MODELS\<rparr>)"
  using assms
proof (induction "length MODELS - a" arbitrary: a s)
  case 0
  then show ?case by simp
next
  case (Suc d)
  let ?c = "current_model_index s"
  let ?N = "length MODELS"
  from Suc.prems have upt: "[a..<?N] = a # [Suc a..<?N]"
    by (simp add: upt_conv_Cons)
  from Suc.prems(3) Suc.hyps(2) have "isl (attempt_outcome env s h 0)" by simp
  then obtain e where fail: "create_completion env (length (requests s)) (MODELS ! ?c)
           (system_message # h) = Inl e"
    using Suc.prems(2) by (auto simp: attempt_outcome_def isl_def)
  then have e: "projl (attempt_outcome env s h 0) = e"
    using Suc.prems(2) by (simp add: attempt_outcome_def)
  define s2 where "s2 = s\<lparr>requests := requests s @ [(MODELS ! ?c, system_message # h)],
                 current_model_index := (?c + 1) mod ?N\<rparr>"
  have step: "fallback_loop env h [a..<?N] s =
      (if a = ?N - 1 then (Inl (Exception (ALL_MODELS_UNAVAILABLE @ e)), s2)
       else fallback_loop env h [Suc a..<?N] s2)"
    by (simp only: upt fallback_loop_Cons_fail [OF Suc.prems(2) fail] Let_def s2_def)
  show ?case
  proof (cases "a = ?N - 1")
    case True
    then have "?N - a = 1"
      using Suc.prems(1) by simp
    with True show ?thesis
      unfolding step using Suc.prems(2) by (simp add: e s2_def attempt_request_def)
  next
    case False
    have out: "attempt_outcome env s2 h j = attempt_outcome env s h (Suc j)" for j
      by (simp add: attempt_outcome_def s2_def mod_add_left_eq)
    have req: "attempt_request (current_model_index s2) h j = attempt_request ?c h (Suc j)" for j
      by (simp add: attempt_request_def s2_def mod_add_left_eq)
    from False Suc.prems(1) have a': "Suc a < ?N" by simp
    have d: "d = ?N - Suc a" using Suc.hyps(2) by simp
    have IH: "fallback_loop env h [Suc a..<?N] s2 =
     (Inl (Exception (ALL_MODELS_UNAVAILABLE @
             projl (attempt_outcome env s2 h (?N - Suc a - 1)))),
      s2\<lparr>requests := requests s2 @
            map (attempt_request (current_model_index s2) h) [0..<?N - Suc a],
        current_model_index := (current_model_index s2 + (?N - Suc a)) mod ?N\<rparr>)"
    proof (rule Suc.hyps(1) [OF d a'])
      show "current_model_index s2 < ?N" by (simp add: s2_def length_MODELS)
      show "\<forall>j<?N - Suc a. isl (attempt_outcome env s2 h j)"
        using Suc.prems(3) by (simp add: out)
    qed
    have last: "Suc (?N - Suc a - 1) = ?N - a - 1"
      using a' by simp
    have idx: "(current_model_index s2 + (?N - Suc a)) mod ?N = (?c + (?N - a)) mod ?N"
    proof -
      have "(current_model_index s2 + (?N - Suc a)) mod ?N
          = ((?c + 1) mod ?N + (?N - Suc a)) mod ?N"
        by (simp add: s2_def)
      also have "\<dots> = (?c + 1 + (?N - Suc a)) mod ?N"
        by (rule mod_add_left_eq)
      also have "?c + 1 + (?N - Suc a) = ?c + (?N - a)"
        using a' by simp
      finally show ?thesis .
    qed
    have "requests s2 @ map (attempt_request (current_model_index s2) h) [0..<?N - Suc a]
        = requests s @ map (attempt_request ?c h) [0..<Suc (?N - Suc a)]"
      using Suc.prems(2) by (rule shift_requests [OF _ s2_def])
    moreover have "Suc (?N - Suc a) = ?N - a"
      using a' by simp
    ultimately have reqs:
      "requests s2 @ map (attempt_request (current_model_index s2) h) [0..<?N - Suc a]
        = requests s @ map (attempt_request ?c h) [0..<?N - a]"
      by simp
    show ?thesis
      using False unfolding step IH idx reqs out last by (simp add: s2_def)
  qed
qed

lemma mod_add_inj_aux:
  fixes c j k n :: nat
  assumes "j \<le> k" and "(c + j) mod n = (c + k) mod n" and "k < n"
  shows "j = k"
proof -
  from assms(1) have "c + j \<le> c + k" by simp
  from mod_eq_dvd_iff_nat [OF this, of n] assms(2) have "n dvd (c + k) - (c + j)"
    by metis
  then have "n dvd k - j" by simp
  moreover from assms(3) have "k - j < n" by simp
  ultimately have "k - j = 0"
    using nat_dvd_not_less by (cases "k - j = 0") auto
  with assms(1) show ?thesis by simp
qed

lemma mod_add_inj:
  fixes c j k n :: nat
  assumes "(c + j) mod n = (c + k) mod n" and "j < n" and "k < n"
  shows "j = k"
proof (cases "j \<le> k")
  case True
  then show ?thesis using assms(1,3) by (rule mod_add_inj_aux)
next
  case False
  then have "k \<le> j" by simp
  then have "k = j" using assms(1) [symmetric] assms(2) by (rule mod_add_inj_aux)
  then show ?thesis by simp
qed

lemma fallback_loop_frame:
  "user_conversations (snd (fallback_loop env h as s)) = user_conversations s \<and>
   replies (snd (fallback_loop env h as s)) = replies s"
  by (induction as arbitrary: s) (simp_all add: Let_def split: sum.splits)

lemma fallback_loop_cursor:
  "current_model_index s < length MODELS \<Longrightarrow>
   current_model_index (snd (fallback_loop env h as s)) < length MODELS"
  by (induction as arbitrary: s) (simp_all add: Let_def length_MODELS split: sum.splits)

lemma fallback_loop_requests:
  "\<exists>new. requests (snd (fallback_loop env h as s)) = requests s @ new \<and>
         (\<forall>q \<in> set new. snd q = system_message # h) \<and>
         (current_model_index s < length MODELS \<and> as \<noteq> [] \<longrightarrow> new \<noteq> [])"
proof (induction as arbitrary: s)
  case Nil
  show ?case by simp
next
  case (Cons a as)
  show ?case
  proof (cases "current_model_index s < length MODELS")
    case False
    then show ?thesis by simp
  next
    case True
    let ?q = "(MODELS ! current_model_index s, system_message # h)"
    show ?thesis
    proof (cases "create_completion env (length (requests s)) (MODELS ! current_model_index s)
                    (system_message # h)")
      case (Inr t)
      with True have "requests (snd (fallback_loop env h (a # as) s)) = requests s @ [?q]"
        by (simp add: Let_def)
      then show ?thesis by simp
    next
      case (Inl e)
      define s2 where "s2 = s\<lparr>requests := requests s @ [?q],
                 current_model_index := (current_model_index s + 1) mod length MODELS\<rparr>"
      show ?thesis
      proof (cases "a = length MODELS - 1")
        case True
        with \<open>current_model_index s < length MODELS\<close> Inl
        have "requests (snd (fallback_loop env h (a # as) s)) = requests s @ [?q]"
          by (simp add: Let_def)
        then show ?thesis by simp
      next
        case False
        with \<open>current_model_index s < length MODELS\<close> Inl
        have eq: "fallback_loop env h (a # as) s = fallback_loop env h as s2"
          by (simp add: Let_def s2_def)
        from Cons.IH [of s2] obtain new where
          new: "requests (snd (fallback_loop env h as s2)) = requests s2 @ new"
            "\<forall>q \<in> set new. snd q = system_message # h"
          by blast
        then have "requests (snd (fallback_loop env h (a # as) s)) = requests s @ (?q # new)"
          unfolding eq by (simp add: s2_def)
        moreover have "\<forall>q \<in> set (?q # new). snd q = system_message # h"
          using new(2) by simp
        ultimately show ?thesis by blast
      qed
    qed
  qed
qed

lemma call_frame:
  "user_conversations (snd (call_ai_with_fallback env h s)) = user_conversations s"
  "replies (snd (call_ai_with_fallback env h s)) = replies s"
  by (simp_all add: call_ai_with_fallback_def fallback_loop_frame)

lemma call_cursor:
  "current_model_index s < length MODELS \<Longrightarrow>
   current_model_index (snd (call_ai_with_fallback env h s)) < length MODELS"
  by (simp add: call_ai_with_fallback_def fallback_loop_cursor)

lemma call_requests:
  "\<exists>new. requests (snd (call_ai_with_fallback env h s)) = requests s @ new \<and>
         (\<forall>q \<in> set new. snd q = system_message # h) \<and>
         (current_model_index s < length MODELS \<longrightarrow> new \<noteq> [])"
  using fallback_loop_requests [of env h "[0..<length MODELS]" s]
  by (simp add: call_ai_with_fallback_def length_MODELS)

lemma call_first_request:
  assumes "current_model_index s < length MODELS"
  shows "\<exists>rest. requests (snd (call_ai_with_fallback env h s))
           = requests s @ (MODELS ! current_model_index s, system_message # h) # rest"
proof -
  let ?q = "(MODELS ! current_model_index s, system_message # h)"
  have upt: "[0..<length MODELS] = 0 # [1..<length MODELS]"
    by (simp add: upt_conv_Cons length_MODELS)
  show ?thesis
  proof (cases "create_completion env (length (requests s)) (MODELS ! current_model_index s)
                  (system_message # h)")
    case (Inr t)
    with assms have "requests (snd (call_ai_with_fallback env h s)) = requests s @ [?q]"
      by (simp add: call_ai_with_fallback_def upt Let_def)
    then show ?thesis by simp
  next
    case (Inl e)
    define s2 where "s2 = s\<lparr>requests := requests s @ [?q],
               current_model_index := (current_model_index s + 1) mod length MODELS\<rparr>"
    have "call_ai_with_fallback env h s = fallback_loop env h (0 # [1..<length MODELS]) s"
      by (simp only: call_ai_with_fallback_def upt)
    also have "\<dots> = fallback_loop env h [1..<length MODELS] s2"
      unfolding fallback_loop_Cons_fail [OF assms Inl]
      by (simp add: Let_def s2_def length_MODELS)
    finally have "call_ai_with_fallback env h s = fallback_loop env h [1..<length MODELS] s2" .
    moreover obtain new where
      "requests (snd (fallback_loop env h [1..<length MODELS] s2)) = requests s2 @ new"
      using fallback_loop_requests [of env h "[1..<length MODELS]" s2] by blast
    ultimately have "requests (snd (call_ai_with_fallback env h s)) = requests s @ ?q # new"
      by (simp add: s2_def)
    then show ?thesis by blast
  qed
qed

lemma MODELS_nth:
  "MODELS ! 0 = ascii ''meta-llama/llama-2-70b-chat''"
  "MODELS ! 1 = ascii ''meta-llama/llama-3-70b-instruct''"
  "MODELS ! Suc 0 = ascii ''meta-llama/llama-3-70b-instruct''"
  "MODELS ! 2 = ascii ''mistralai/mistral-7b-instruct''"
  "MODELS ! 3 = ascii ''meta-llama/llama-2-13b-chat''"
  "MODELS ! 4 = ascii ''nousresearch/nous-hermes-2-mixtral-8x7b-dpo''"
  by (simp_all add: MODELS_def)

text \<open>
  Claim C1, as the code has it. Let a call start with the cursor at a valid position
  \<open>c\<close>, let its first \<open>K\<close> attempts fail and attempt number \<open>K + 1\<close> succeed with the
  content \<open>t\<close> (\<open>K\<close> less than the number of models). Then the call makes exactly \<open>K + 1\<close>
  requests, to the models at positions \<open>c, c + 1, \<dots>, c + K\<close> modulo the number of models,
  each with the system message in front of the history; it returns \<open>t\<close> with the
  identifier of the model at position \<open>(c + K) mod N\<close>; the cursor ends at
  \<open>(c + K) mod N\<close>; and the next call, whatever its history and its outcomes, makes its
  first request to the model at that same position \<open>(c + K) mod N\<close>.
\<close>

theorem call_succeeds_after_failures:
  assumes "K < length MODELS" and "current_model_index s < length MODELS"
    and "\<forall>j<K. isl (attempt_outcome env s h j)"
    and "attempt_outcome env s h K = Inr t"
  shows "call_ai_with_fallback env h s =
     (Inr (t, Some (MODELS ! ((current_model_index s + K) mod length MODELS))),
      s\<lparr>requests := requests s @ map (attempt_request (current_model_index s) h) [0..<Suc K],
        current_model_index := (current_model_index s + K) mod length MODELS\<rparr>) \<and>
     (\<forall>env' h'. \<exists>rest.
        requests (snd (call_ai_with_fallback env' h' (snd (call_ai_with_fallback env h s)))) =
        requests (snd (call_ai_with_fallback env h s)) @
        (MODELS ! ((current_model_index s + K) mod length MODELS), system_message # h') # rest)"
proof -
  let ?c' = "(current_model_index s + K) mod length MODELS"
  let ?s' = "s\<lparr>requests := requests s @ map (attempt_request (current_model_index s) h) [0..<Suc K],
        current_model_index := ?c'\<rparr>"
  from assms have "0 + K < length MODELS" by simp
  from fallback_loop_success [OF this assms(2-4)]
  have call: "call_ai_with_fallback env h s = (Inr (t, Some (MODELS ! ?c')), ?s')"
    by (simp only: call_ai_with_fallback_def)
  have "current_model_index ?s' < length MODELS"
    by (simp add: length_MODELS)
  from call_first_request [OF this]
  have "\<exists>rest. requests (snd (call_ai_with_fallback env' h' ?s')) =
          requests ?s' @ (MODELS ! ?c', system_message # h') # rest" for env' h'
    by simp
  then show ?thesis
    unfolding call snd_conv by blast
qed

theorem call_succeeds_after_failures_witness:
  "2 < length MODELS \<and> current_model_index (state_at 4) < length MODELS \<and>
   isl (attempt_outcome (scenario 2 (Some (ascii ''ok'')) no_table) (state_at 4) [] 0) \<and>
   isl (attempt_outcome (scenario 2 (Some (ascii ''ok'')) no_table) (state_at 4) [] 1) \<and>
   attempt_outcome (scenario 2 (Some (ascii ''ok'')) no_table) (state_at 4) [] 2 = Inr (Some (ascii ''ok'')) \<and>
   call_ai_with_fallback (scenario 2 (Some (ascii ''ok'')) no_table) [] (state_at 4) =
     (Inr (Some (ascii ''ok''), Some (MODELS ! 1)),
      state_at 1 \<lparr>requests := [(MODELS ! 4, [system_message]), (MODELS ! 0, [system_message]),
                                (MODELS ! 1, [system_message])]\<rparr>)"
proof -
  have hyps: "2 < length MODELS" "current_model_index (state_at 4) < length MODELS"
    "\<forall>j<2. isl (attempt_outcome (scenario 2 (Some (ascii ''ok'')) no_table) (state_at 4) [] j)"
    "attempt_outcome (scenario 2 (Some (ascii ''ok'')) no_table) (state_at 4) [] 2 = Inr (Some (ascii ''ok''))"
    by (simp_all add: length_MODELS state_at_def initial_state_def attempt_outcome_def scenario_def)
  from call_succeeds_after_failures [OF hyps] hyps show ?thesis
    by (simp add: length_MODELS state_at_def initial_state_def attempt_request_def upt_conv_Cons)
qed

text \<open>
  The claim as the specification words it puts the start of the next call at position
  \<open>(c + K + 1) mod N\<close>. With \<open>K = 0\<close> from the initial state the cursor stays at 0 and the
  next call asks the model at position 0 again, not the one at position 1.
\<close>

theorem next_call_position_counterexample:
  "0 < length MODELS \<and> current_model_index initial_state < length MODELS \<and>
   attempt_outcome (scenario 0 (Some (ascii ''ok'')) no_table) initial_state [] 0 = Inr (Some (ascii ''ok'')) \<and>
   current_model_index (snd (call_ai_with_fallback (scenario 0 (Some (ascii ''ok'')) no_table) []
      initial_state)) \<noteq> (current_model_index initial_state + 0 + 1) mod length MODELS \<and>
   map fst (requests (snd (call_ai_with_fallback (scenario 0 (Some (ascii ''ok'')) no_table) []
      (snd (call_ai_with_fallback (scenario 0 (Some (ascii ''ok'')) no_table) [] initial_state)))))
     = [MODELS ! 0, MODELS ! 0] \<and>
   MODELS ! 0 \<noteq> MODELS ! ((current_model_index initial_state + 0 + 1) mod length MODELS)"
  by (simp add: call_ai_with_fallback_def length_MODELS upt_conv_Cons initial_state_def
      attempt_outcome_def scenario_def Let_def MODELS_nth ascii_def)

text \<open>
  Claim C2. From every valid cursor position \<open>c\<close>, if each of the \<open>N\<close> attempts of the call
  fails, the call raises the exception whose message is the fixed text of line 109
  followed by the description of the last failure; it has made exactly \<open>N\<close> requests, to
  the models at positions \<open>c, c + 1, \<dots>\<close> modulo \<open>N\<close>, which are \<open>N\<close> different models; and
  the cursor is back at \<open>c\<close>.
\<close>

theorem call_fails_when_all_models_fail:
  assumes "current_model_index s < length MODELS"
    and "\<forall>j<length MODELS. isl (attempt_outcome env s h j)"
  shows "fst (call_ai_with_fallback env h s) =
           Inl (Exception (ALL_MODELS_UNAVAILABLE @
                  projl (attempt_outcome env s h (length MODELS - 1)))) \<and>
         requests (snd (call_ai_with_fallback env h s)) =
           requests s @ map (attempt_request (current_model_index s) h) [0..<length MODELS] \<and>
         length (requests (snd (call_ai_with_fallback env h s))) =
           length (requests s) + length MODELS \<and>
         distinct (map (\<lambda>j. fst (attempt_request (current_model_index s) h j)) [0..<length MODELS]) \<and>
         current_model_index (snd (call_ai_with_fallback env h s)) = current_model_index s"
proof -
  have "0 < length MODELS" by (simp add: length_MODELS)
  from fallback_loop_all_fail [OF this assms(1)] assms(2)
  have call: "call_ai_with_fallback env h s =
     (Inl (Exception (ALL_MODELS_UNAVAILABLE @
             projl (attempt_outcome env s h (length MODELS - 1)))),
      s\<lparr>requests := requests s @
            map (attempt_request (current_model_index s) h) [0..<length MODELS],
        current_model_index := (current_model_index s + length MODELS) mod length MODELS\<rparr>)"
    by (simp add: call_ai_with_fallback_def)
  have "inj_on (\<lambda>j. fst (attempt_request (current_model_index s) h j)) {0..<length MODELS}"
  proof (rule inj_onI)
    fix j k
    assume jk: "j \<in> {0..<length MODELS}" "k \<in> {0..<length MODELS}"
      and "fst (attempt_request (current_model_index s) h j)
         = fst (attempt_request (current_model_index s) h k)"
    then have "MODELS ! ((current_model_index s + j) mod length MODELS)
        = MODELS ! ((current_model_index s + k) mod length MODELS)"
      by (simp add: attempt_request_def)
    then have "(current_model_index s + j) mod length MODELS
        = (current_model_index s + k) mod length MODELS"
      using distinct_MODELS by (simp add: nth_eq_iff_index_eq length_MODELS)
    with jk show "j = k"
      by (auto intro: mod_add_inj)
  qed
  then have "distinct (map (\<lambda>j. fst (attempt_request (current_model_index s) h j))
                         [0..<length MODELS])"
    by (simp add: distinct_map)
  with assms(1) show ?thesis
    unfolding call by simp
qed

theorem call_fails_when_all_models_fail_witness:
  "current_model_index (state_at 3) < length MODELS \<and>
   isl (attempt_outcome (scenario 5 (Some (ascii ''ok'')) no_table) (state_at 3) [] 0) \<and>
   isl (attempt_outcome (scenario 5 (Some (ascii ''ok'')) no_table) (state_at 3) [] 1) \<and>
   isl (attempt_outcome (scenario 5 (Some (ascii ''ok'')) no_table) (state_at 3) [] 2) \<and>
   isl (attempt_outcome (scenario 5 (Some (ascii ''ok'')) no_table) (state_at 3) [] 3) \<and>
   isl (attempt_outcome (scenario 5 (Some (ascii ''ok'')) no_table) (state_at 3) [] 4) \<and>
   fst (call_ai_with_fallback (scenario 5 (Some (ascii ''ok'')) no_table) [] (state_at 3)) =
     Inl (Exception (ALL_MODELS_UNAVAILABLE @ ascii ''timeout'')) \<and>
   map fst (requests (snd (call_ai_with_fallback (scenario 5 (Some (ascii ''ok'')) no_table) []
      (state_at 3)))) = [MODELS ! 3, MODELS ! 4, MODELS ! 0, MODELS ! 1, MODELS ! 2] \<and>
   current_model_index (snd (call_ai_with_fallback (scenario 5 (Some (ascii ''ok'')) no_table) []
      (state_at 3))) = 3"
proof -
  have hyps: "current_model_index (state_at 3) < length MODELS"
    "\<forall>j<length MODELS. isl (attempt_outcome (scenario 5 (Some (ascii ''ok'')) no_table) (state_at 3) [] j)"
    by (simp_all add: length_MODELS state_at_def initial_state_def attempt_outcome_def scenario_def)
  from call_fails_when_all_models_fail [OF hyps] show ?thesis
    by (simp add: length_MODELS state_at_def initial_state_def attempt_request_def upt_conv_Cons
        attempt_outcome_def scenario_def)
qed

text \<open>
  Claim C9, as the code has it. The fallback caller never returns \<^verbatim>\<open>(None, None)\<close>, and no
  result of it has \<^verbatim>\<open>None\<close> for the model, in any state. When the cursor is a valid position,
  the call either returns the content of its first successful attempt with the model of
  that attempt, or raises the exception of line 109 on the failure of the last attempt
  after all the others failed. So the line after the loop is never reached, and the reply
  that a caller receives is the content of a completion.
\<close>

theorem call_never_falls_through:
  "fst (call_ai_with_fallback env h s) \<noteq> Inr (None, None) \<and>
   (\<forall>reply. fst (call_ai_with_fallback env h s) \<noteq> Inr (reply, None)) \<and>
   (current_model_index s < length MODELS \<longrightarrow>
      (\<exists>K reply. K < length MODELS \<and> (\<forall>j<K. isl (attempt_outcome env s h j)) \<and>
             attempt_outcome env s h K = Inr reply \<and>
             fst (call_ai_with_fallback env h s) =
               Inr (reply, Some (MODELS ! ((current_model_index s + K) mod length MODELS)))) \<or>
      (\<exists>d. (\<forall>j<length MODELS. isl (attempt_outcome env s h j)) \<and>
           attempt_outcome env s h (length MODELS - 1) = Inl d \<and>
           fst (call_ai_with_fallback env h s) = Inl (Exception (ALL_MODELS_UNAVAILABLE @ d))))"
proof -
  have valid: "(\<exists>K reply. K < length MODELS \<and> (\<forall>j<K. isl (attempt_outcome env s h j)) \<and>
             attempt_outcome env s h K = Inr reply \<and>
             fst (call_ai_with_fallback env h s) =
               Inr (reply, Some (MODELS ! ((current_model_index s + K) mod length MODELS)))) \<or>
      (\<exists>d. (\<forall>j<length MODELS. isl (attempt_outcome env s h j)) \<and>
           attempt_outcome env s h (length MODELS - 1) = Inl d \<and>
           fst (call_ai_with_fallback env h s) = Inl (Exception (ALL_MODELS_UNAVAILABLE @ d)))"
    if c: "current_model_index s < length MODELS"
  proof (cases "\<forall>j<length MODELS. isl (attempt_outcome env s h j)")
    case True
    have "0 < length MODELS" by (simp add: length_MODELS)
    from fallback_loop_all_fail [OF this c] True
    have "fst (call_ai_with_fallback env h s) =
       Inl (Exception (ALL_MODELS_UNAVAILABLE @
             projl (attempt_outcome env s h (length MODELS - 1))))"
      by (simp add: call_ai_with_fallback_def)
    moreover from True have "isl (attempt_outcome env s h (length MODELS - 1))"
      by (simp add: length_MODELS)
    then have "attempt_outcome env s h (length MODELS - 1)
        = Inl (projl (attempt_outcome env s h (length MODELS - 1)))"
      by simp
    ultimately show ?thesis using True by blast
  next
    case False
    define K where "K = (LEAST j. j < length MODELS \<and> \<not> isl (attempt_outcome env s h j))"
    from False have ex: "\<exists>j. j < length MODELS \<and> \<not> isl (attempt_outcome env s h j)"
      by blast
    then have K: "K < length MODELS" "\<not> isl (attempt_outcome env s h K)"
      unfolding K_def by (metis (mono_tags, lifting) LeastI_ex)+
    have before: "\<forall>j<K. isl (attempt_outcome env s h j)"
    proof (intro allI impI)
      fix j assume "j < K"
      then have "\<not> (j < length MODELS \<and> \<not> isl (attempt_outcome env s h j))"
        unfolding K_def by (rule not_less_Least)
      with \<open>j < K\<close> K(1) show "isl (attempt_outcome env s h j)" by simp
    qed
    from K(2) obtain reply where reply: "attempt_outcome env s h K = Inr reply"
      by (cases "attempt_outcome env s h K") simp_all
    from K(1) have "0 + K < length MODELS" by simp
    from fallback_loop_success [OF this c before reply]
    have "fst (call_ai_with_fallback env h s) =
        Inr (reply, Some (MODELS ! ((current_model_index s + K) mod length MODELS)))"
      by (simp add: call_ai_with_fallback_def)
    with K(1) before reply show ?thesis by blast
  qed
  have model: "fst (call_ai_with_fallback env h s) \<noteq> Inr (reply, None)" for reply
  proof (cases "current_model_index s < length MODELS")
    case True
    from valid [OF this] show ?thesis by auto
  next
    case False
    have "[0..<length MODELS] = 0 # [1..<length MODELS]"
      by (simp add: upt_conv_Cons length_MODELS)
    with False show ?thesis
      by (simp add: call_ai_with_fallback_def)
  qed
  from model [of None] model valid show ?thesis by blast
qed

theorem call_never_falls_through_witness:
  "current_model_index initial_state < length MODELS \<and>
   isl (attempt_outcome (scenario 1 (Some (ascii ''ok'')) no_table) initial_state [] 0) \<and>
   attempt_outcome (scenario 1 (Some (ascii ''ok'')) no_table) initial_state [] 1
     = Inr (Some (ascii ''ok'')) \<and>
   fst (call_ai_with_fallback (scenario 1 (Some (ascii ''ok'')) no_table) [] initial_state)
     \<noteq> Inr (None, None) \<and>
   fst (call_ai_with_fallback (scenario 1 (Some (ascii ''ok'')) no_table) [] initial_state)
     = Inr (Some (ascii ''ok''), Some (MODELS ! 1))"
proof -
  let ?env = "scenario 1 (Some (ascii ''ok'')) no_table"
  have c: "current_model_index initial_state < length MODELS"
    by (simp add: initial_state_def length_MODELS)
  have out0: "isl (attempt_outcome ?env initial_state [] 0)"
    by (simp add: attempt_outcome_def scenario_def initial_state_def)
  have out1: "attempt_outcome ?env initial_state [] 1 = Inr (Some (ascii ''ok''))"
    by (simp add: attempt_outcome_def scenario_def initial_state_def)
  have outK: "0 < K \<and> reply = Some (ascii ''ok'')"
    if "attempt_outcome ?env initial_state [] K = Inr reply" for K reply
    using that by (simp add: attempt_outcome_def scenario_def initial_state_def split: if_splits)
  have not_isl: "\<not> isl (attempt_outcome ?env initial_state [] 1)"
    by (simp only: out1) simp
  note inst = call_never_falls_through [of ?env "[]" initial_state]
  from inst have not_none: "fst (call_ai_with_fallback ?env [] initial_state) \<noteq> Inr (None, None)"
    by blast
  from inst c consider
    (ok) K reply where "K < length MODELS"
      "\<forall>j<K. isl (attempt_outcome ?env initial_state [] j)"
      "attempt_outcome ?env initial_state [] K = Inr reply"
      "fst (call_ai_with_fallback ?env [] initial_state) =
         Inr (reply, Some (MODELS ! ((current_model_index initial_state + K) mod length MODELS)))"
  | (failed) "\<forall>j<length MODELS. isl (attempt_outcome ?env initial_state [] j)"
    by blast
  then have "fst (call_ai_with_fallback ?env [] initial_state)
      = Inr (Some (ascii ''ok''), Some (MODELS ! 1))"
  proof cases
    case ok
    from outK [OF ok(3)] have "0 < K" and reply: "reply = Some (ascii ''ok'')"
      by simp_all
    moreover from ok(2) not_isl have "\<not> 1 < K"
      by blast
    ultimately have "K = 1" by simp
    with ok(4) reply show ?thesis
      by (simp add: initial_state_def length_MODELS)
  next
    case failed
    moreover have "1 < length MODELS"
      by (simp add: length_MODELS)
    ultimately have "isl (attempt_outcome ?env initial_state [] 1)"
      by blast
    with not_isl show ?thesis by blast
  qed
  with c out0 out1 not_none show ?thesis by blast
qed

text \<open>
  The claim as the specification words it lets no caller receive a \<^verbatim>\<open>None\<close> reply. When the
  completion of the first model carries no content, the fallback caller returns \<^verbatim>\<open>None\<close>
  with the model; the text handler stores it as the reply and answers with the error
  message of line 217 for \<^verbatim>\<open>len(None)\<close>.
\<close>

theorem none_reply_counterexample:
  "attempt_outcome (scenario 0 None no_table) initial_state [] 0 = Inr None \<and>
   fst (call_ai_with_fallback (scenario 0 None no_table) [] initial_state)
     = Inr (None, Some (MODELS ! 0)) \<and>
   user_conversations
     (handle_text (scenario 0 None no_table) (text_update 7 (ascii ''hello'')) initial_state) 7 =
     Some [\<lparr>role = ascii ''user'', content = Some (ascii ''hello'')\<rparr>,
           \<lparr>role = ascii ''assistant'', content = None\<rparr>] \<and>
   replies
     (handle_text (scenario 0 None no_table) (text_update 7 (ascii ''hello'')) initial_state) =
     [SEARCHING, TEXT_ERROR @ NONE_HAS_NO_LEN @ CHECK_KEY_HINT]"
  by (simp add: handle_text_def ensure_history_def append_record_def ask_and_reply_def
      call_ai_with_fallback_def length_MODELS upt_conv_Cons scenario_def initial_state_def
      text_update_def attempt_outcome_def Let_def reply_text_def)

section \<open>Properties of the handlers\<close>

lemma reply_text_frame [simp]:
  "current_model_index (reply_text t s) = current_model_index s"
  "user_conversations (reply_text t s) = user_conversations s"
  "requests (reply_text t s) = requests s"
  "replies (reply_text t s) = replies s @ [t]"
  by (simp_all add: reply_text_def)

lemma send_chunks_frame_aux:
  "current_model_index (foldl (\<lambda>s' i. reply_text (slice m i (i + 4096)) s') s is)
     = current_model_index s \<and>
   user_conversations (foldl (\<lambda>s' i. reply_text (slice m i (i + 4096)) s') s is)
     = user_conversations s \<and>
   requests (foldl (\<lambda>s' i. reply_text (slice m i (i + 4096)) s') s is) = requests s"
  by (induction "is" arbitrary: s) simp_all

lemma send_chunks_frame [simp]:
  "current_model_index (send_chunks m s) = current_model_index s"
  "user_conversations (send_chunks m s) = user_conversations s"
  "requests (send_chunks m s) = requests s"
  by (simp_all add: send_chunks_def send_chunks_frame_aux)

lemma ensure_history_frame [simp]:
  "current_model_index (ensure_history u s) = current_model_index s"
  "requests (ensure_history u s) = requests s"
  "replies (ensure_history u s) = replies s"
  by (simp_all add: ensure_history_def)

lemma ensure_history_conversations:
  "user_conversations (ensure_history u s) =
     (case user_conversations s u of
        None \<Rightarrow> (user_conversations s)(u \<mapsto> [])
      | Some h \<Rightarrow> user_conversations s)"
  by (simp add: ensure_history_def split: option.splits)

lemma ensure_history_lookup:
  "user_conversations (ensure_history u s) u =
     Some (case user_conversations s u of None \<Rightarrow> [] | Some h \<Rightarrow> h)"
  by (simp add: ensure_history_def split: option.splits)

lemma append_record_Some:
  "user_conversations s u = Some h \<Longrightarrow>
   append_record u r s = Inr (s\<lparr>user_conversations := (user_conversations s)(u \<mapsto> h @ [r])\<rparr>)"
  by (simp add: append_record_def)

text \<open>
  What \<open>ask_and_reply\<close> does for a user who has a history: it makes the requests of one
  call of the fallback caller with that history, keeps the cursor of that call, and
  extends the history by at most the reply.
\<close>

lemma ask_and_reply_effect:
  assumes "user_conversations s u = Some h"
  shows "requests (snd (ask_and_reply env u s)) = requests (snd (call_ai_with_fallback env h s))"
    and "current_model_index (snd (ask_and_reply env u s))
           = current_model_index (snd (call_ai_with_fallback env h s))"
    and "\<exists>tail. user_conversations (snd (ask_and_reply env u s))
           = (user_conversations s)(u \<mapsto> h @ tail)"
proof -
  obtain r s1 where call: "call_ai_with_fallback env h s = (r, s1)"
    by (cases "call_ai_with_fallback env h s")
  with call_frame(1) [of env h s] have s1: "user_conversations s1 = user_conversations s"
    by simp
  show "requests (snd (ask_and_reply env u s)) = requests (snd (call_ai_with_fallback env h s))"
    using assms call s1
    by (auto simp: ask_and_reply_def append_record_def split: sum.splits option.splits)
  show "current_model_index (snd (ask_and_reply env u s))
           = current_model_index (snd (call_ai_with_fallback env h s))"
    using assms call s1
    by (auto simp: ask_and_reply_def append_record_def split: sum.splits option.splits)
  show "\<exists>tail. user_conversations (snd (ask_and_reply env u s))
           = (user_conversations s)(u \<mapsto> h @ tail)"
  proof (cases r)
    case (Inl e)
    with assms call s1 have "user_conversations (snd (ask_and_reply env u s))
        = (user_conversations s)(u \<mapsto> h @ [])"
      by (simp add: ask_and_reply_def fun_upd_idem)
    then show ?thesis by blast
  next
    case (Inr p)
    obtain a m where p: "p = (a, m)" by (cases p)
    with Inr assms call s1 have "user_conversations (snd (ask_and_reply env u s))
        = (user_conversations s)(u \<mapsto> h @ [\<lparr>role = ascii ''assistant'', content = a\<rparr>])"
      by (simp add: ask_and_reply_def append_record_def split: option.splits)
    then show ?thesis by blast
  qed
qed

lemma ask_and_reply_no_history:
  "user_conversations s u = None \<Longrightarrow> ask_and_reply env u s = (Some (KeyError u), s)"
  by (simp add: ask_and_reply_def)

lemma ask_and_reply_cursor:
  "current_model_index s < length MODELS \<Longrightarrow>
   current_model_index (snd (ask_and_reply env u s)) < length MODELS"
proof (cases "user_conversations s u")
  case None
  assume "current_model_index s < length MODELS"
  with None show ?thesis by (simp add: ask_and_reply_no_history)
next
  case (Some h)
  assume "current_model_index s < length MODELS"
  with ask_and_reply_effect(2) [OF Some, of env] show ?thesis
    by (simp add: call_cursor)
qed

lemma ask_and_reply_keys:
  "user_conversations s v \<noteq> None \<Longrightarrow>
   user_conversations (snd (ask_and_reply env u s)) v \<noteq> None"
proof (cases "user_conversations s u")
  case None
  assume "user_conversations s v \<noteq> None"
  with None show ?thesis by (simp add: ask_and_reply_no_history)
next
  case (Some h)
  assume v: "user_conversations s v \<noteq> None"
  from ask_and_reply_effect(3) [OF Some, of env] obtain tail where
    "user_conversations (snd (ask_and_reply env u s)) = (user_conversations s)(u \<mapsto> h @ tail)"
    by blast
  with v show ?thesis by simp
qed

text \<open>The text handler, for a user whose history after the lazy creation is \<open>h\<close>.\<close>

lemma handle_text_unfold:
  "handle_text env upd s =
     (let u = effective_user_id upd;
          h = (case user_conversations s u of None \<Rightarrow> [] | Some h \<Rightarrow> h);
          r = \<lparr>role = ascii ''user'', content = Some (message_text upd)\<rparr>;
          s2 = reply_text SEARCHING
                 (s\<lparr>user_conversations := (user_conversations s)(u \<mapsto> h @ [r])\<rparr>)
      in case ask_and_reply env u s2 of
           (Some e, s3) \<Rightarrow> reply_text (TEXT_ERROR @ str_exn e @ CHECK_KEY_HINT) s3
         | (None, s3) \<Rightarrow> s3)"
  by (cases "user_conversations s (effective_user_id upd)")
     (simp_all add: handle_text_def ensure_history_def append_record_def Let_def reply_text_def)

lemma handle_text_effect:
  fixes env upd s
  defines "u \<equiv> effective_user_id upd"
  defines "h \<equiv> (case user_conversations s u of None \<Rightarrow> [] | Some h \<Rightarrow> h)"
  defines "r \<equiv> \<lparr>role = ascii ''user'', content = Some (message_text upd)\<rparr>"
  defines "s2 \<equiv> reply_text SEARCHING
                 (s\<lparr>user_conversations := (user_conversations s)(u \<mapsto> h @ [r])\<rparr>)"
  shows "requests (handle_text env upd s)
           = requests (snd (call_ai_with_fallback env (h @ [r]) s2))"
    and "current_model_index (handle_text env upd s)
           = current_model_index (snd (call_ai_with_fallback env (h @ [r]) s2))"
    and "\<exists>tail. user_conversations (handle_text env upd s)
           = (user_conversations s)(u \<mapsto> h @ r # tail)"
proof -
  have hist: "user_conversations s2 u = Some (h @ [r])"
    by (simp add: s2_def)
  obtain x s3 where ask: "ask_and_reply env u s2 = (x, s3)"
    by (cases "ask_and_reply env u s2")
  have ht: "handle_text env upd s =
      (case x of Some e \<Rightarrow> reply_text (TEXT_ERROR @ str_exn e @ CHECK_KEY_HINT) s3 | None \<Rightarrow> s3)"
    unfolding handle_text_unfold Let_def
    using ask by (simp add: u_def h_def r_def s2_def split: option.splits)
  from ask_and_reply_effect [OF hist, of env] ask
  have eff: "requests s3 = requests (snd (call_ai_with_fallback env (h @ [r]) s2))"
    "current_model_index s3 = current_model_index (snd (call_ai_with_fallback env (h @ [r]) s2))"
    "\<exists>tail. user_conversations s3 = (user_conversations s2)(u \<mapsto> (h @ [r]) @ tail)"
    by simp_all
  show "requests (handle_text env upd s)
           = requests (snd (call_ai_with_fallback env (h @ [r]) s2))"
    using eff(1) by (simp add: ht split: option.splits)
  show "current_model_index (handle_text env upd s)
           = current_model_index (snd (call_ai_with_fallback env (h @ [r]) s2))"
    using eff(2) by (simp add: ht split: option.splits)
  from eff(3) obtain tail where
    "user_conversations s3 = (user_conversations s2)(u \<mapsto> (h @ [r]) @ tail)"
    by blast
  then have "user_conversations (handle_text env upd s)
      = (user_conversations s)(u \<mapsto> h @ r # tail)"
    by (simp add: ht s2_def split: option.splits)
  then show "\<exists>tail. user_conversations (handle_text env upd s)
           = (user_conversations s)(u \<mapsto> h @ r # tail)"
    by blast
qed

text \<open>
  The three ways the \<^verbatim>\<open>try\<close> block of the file handler ends, for a user who has a
  history \<open>h\<close>: an exception before anything was changed, the rejection of the suffix,
  or the question to the model with the preview appended to the history.
\<close>

lemma handle_file_try_cases:
  assumes "user_conversations s (effective_user_id upd) = Some h"
  shows "(\<exists>e. handle_file_try env upd s = (Some e, s)) \<or>
         handle_file_try env upd s = (None, reply_text UNSUPPORTED_FORMAT s) \<or>
         (\<exists>preview. handle_file_try env upd s =
            ask_and_reply env (effective_user_id upd)
              ((reply_text ANALYZING s)\<lparr>user_conversations :=
                 (user_conversations s)(effective_user_id upd \<mapsto>
                    h @ [\<lparr>role = ascii ''user'',
                          content = Some (HERE_IS_MY_DATA @ preview)\<rparr>])\<rparr>))"
proof -
  have app: "append_record (effective_user_id upd) r (reply_text ANALYZING s) =
      Inr ((reply_text ANALYZING s)\<lparr>user_conversations :=
             (user_conversations s)(effective_user_id upd \<mapsto> h @ [r])\<rparr>)" for r
    using assms by (simp add: append_record_def)
  show ?thesis
  proof (cases "document_download upd")
    case (Inl d)
    then show ?thesis
      by (simp add: handle_file_try_def)
  next
    case (Inr file_bytes)
    define parsed where "parsed =
      (if endswith (document_file_name upd) (ascii ''.xlsx'') \<or>
          endswith (document_file_name upd) (ascii ''.xls'')
       then Some (read_excel env file_bytes)
       else if endswith (document_file_name upd) (ascii ''.csv'')
       then Some (read_csv env file_bytes)
       else None)"
    have unfold: "handle_file_try env upd s =
      (case parsed of
         None \<Rightarrow> (None, reply_text UNSUPPORTED_FORMAT s)
       | Some (Inl d) \<Rightarrow> (Some (External d), s)
       | Some (Inr df) \<Rightarrow>
           (case data_preview (document_file_name upd) df of
              Inl e \<Rightarrow> (Some e, s)
            | Inr preview \<Rightarrow>
                ask_and_reply env (effective_user_id upd)
                  ((reply_text ANALYZING s)\<lparr>user_conversations :=
                     (user_conversations s)(effective_user_id upd \<mapsto>
                        h @ [\<lparr>role = ascii ''user'',
                              content = Some (HERE_IS_MY_DATA @ preview)\<rparr>])\<rparr>)))"
      using Inr by (simp add: handle_file_try_def Let_def app parsed_def
          cong: sum.case_cong option.case_cong)
    show ?thesis
    proof (cases parsed)
      case None
      then show ?thesis by (simp add: unfold)
    next
      case (Some outcome)
      show ?thesis
      proof (cases outcome)
        case (Inl d)
        with Some show ?thesis by (simp add: unfold)
      next
        case (Inr df)
        show ?thesis
        proof (cases "data_preview (document_file_name upd) df")
          case (Inl e)
          with Some \<open>outcome = Inr df\<close> show ?thesis by (simp add: unfold)
        next
          case preview: (Inr preview)
          with Some \<open>outcome = Inr df\<close> show ?thesis
            by (simp only: unfold option.case sum.case) blast
        qed
      qed
    qed
  qed
qed

lemma handle_file_try_invariants:
  assumes "user_conversations s (effective_user_id upd) \<noteq> None"
  shows "current_model_index s < length MODELS \<Longrightarrow>
           current_model_index (snd (handle_file_try env upd s)) < length MODELS"
    and "user_conversations s v \<noteq> None \<Longrightarrow>
           user_conversations (snd (handle_file_try env upd s)) v \<noteq> None"
proof -
  from assms obtain h where h: "user_conversations s (effective_user_id upd) = Some h"
    by blast
  note cases = handle_file_try_cases [OF h, of env]
  show "current_model_index (snd (handle_file_try env upd s)) < length MODELS"
    if c: "current_model_index s < length MODELS"
    using cases
  proof (elim disjE exE)
    fix preview
    let ?s1 = "(reply_text ANALYZING s)\<lparr>user_conversations :=
                 (user_conversations s)(effective_user_id upd \<mapsto>
                    h @ [\<lparr>role = ascii ''user'',
                          content = Some (HERE_IS_MY_DATA @ preview)\<rparr>])\<rparr>"
    assume eq: "handle_file_try env upd s = ask_and_reply env (effective_user_id upd) ?s1"
    from c have "current_model_index ?s1 < length MODELS" by simp
    then show ?thesis
      unfolding eq by (rule ask_and_reply_cursor)
  qed (use c in simp_all)
  show "user_conversations (snd (handle_file_try env upd s)) v \<noteq> None"
    if k: "user_conversations s v \<noteq> None"
    using cases
  proof (elim disjE exE)
    fix preview
    let ?s1 = "(reply_text ANALYZING s)\<lparr>user_conversations :=
                 (user_conversations s)(effective_user_id upd \<mapsto>
                    h @ [\<lparr>role = ascii ''user'',
                          content = Some (HERE_IS_MY_DATA @ preview)\<rparr>])\<rparr>"
    assume eq: "handle_file_try env upd s = ask_and_reply env (effective_user_id upd) ?s1"
    from k have "user_conversations ?s1 v \<noteq> None" by simp
    then show ?thesis
      unfolding eq by (rule ask_and_reply_keys)
  qed (use k in simp_all)
qed

lemma handle_file_invariants:
  shows "current_model_index s < length MODELS \<Longrightarrow>
           current_model_index (handle_file env upd s) < length MODELS"
    and "user_conversations s v \<noteq> None \<Longrightarrow> user_conversations (handle_file env upd s) v \<noteq> None"
    and "user_conversations (handle_file env upd s) (effective_user_id upd) \<noteq> None"
proof -
  let ?s1 = "ensure_history (effective_user_id upd) s"
  have key: "user_conversations ?s1 (effective_user_id upd) \<noteq> None"
    by (simp add: ensure_history_lookup)
  obtain x s2 where tr: "handle_file_try env upd ?s1 = (x, s2)"
    by (cases "handle_file_try env upd ?s1")
  have hf: "handle_file env upd s =
      (case x of Some e \<Rightarrow> reply_text (FILE_ERROR @ str_exn e) s2 | None \<Rightarrow> s2)"
    using tr by (simp add: handle_file_def Let_def split: option.splits)
  show "current_model_index (handle_file env upd s) < length MODELS"
    if "current_model_index s < length MODELS"
    using handle_file_try_invariants(1) [OF key, of env] that tr
    by (simp add: hf split: option.splits)
  have keep: "user_conversations s2 w \<noteq> None" if "user_conversations ?s1 w \<noteq> None" for w
    using handle_file_try_invariants(2) [OF key that, of env] tr by simp
  show "user_conversations (handle_file env upd s) v \<noteq> None"
    if "user_conversations s v \<noteq> None"
  proof -
    from that have "user_conversations ?s1 v \<noteq> None"
      by (simp add: ensure_history_def)
    from keep [OF this] show ?thesis
      by (simp add: hf split: option.splits)
  qed
  from keep [OF key] show "user_conversations (handle_file env upd s) (effective_user_id upd) \<noteq> None"
    by (simp add: hf split: option.splits)
qed

lemma handle_file_unsupported:
  assumes "\<not> endswith (document_file_name upd) (ascii ''.xlsx'')"
    and "\<not> endswith (document_file_name upd) (ascii ''.xls'')"
    and "\<not> endswith (document_file_name upd) (ascii ''.csv'')"
    and "document_download upd = Inr file_bytes"
  shows "handle_file env upd s =
           reply_text UNSUPPORTED_FORMAT (ensure_history (effective_user_id upd) s)"
  using assms by (simp add: handle_file_def handle_file_try_def Let_def)

lemma handle_file_download_failed:
  assumes "document_download upd = Inl d"
  shows "handle_file env upd s =
           reply_text (FILE_ERROR @ d) (ensure_history (effective_user_id upd) s)"
  using assms by (simp add: handle_file_def handle_file_try_def Let_def)

lemma calls_cursor:
  "current_model_index s < length MODELS \<Longrightarrow>
   current_model_index (calls env hs s) < length MODELS"
  by (induction hs arbitrary: s) (simp_all add: call_cursor)

lemma handle_text_cursor:
  "current_model_index s < length MODELS \<Longrightarrow>
   current_model_index (handle_text env upd s) < length MODELS"
  by (simp add: handle_text_effect(2) call_cursor)

lemma dispatch_cursor:
  "current_model_index s < length MODELS \<Longrightarrow>
   current_model_index (dispatch env e s) < length MODELS"
  by (cases e)
     (simp_all add: start_def reset_def models_def Let_def handle_text_cursor
        handle_file_invariants(1))

lemma run_cursor:
  "current_model_index s < length MODELS \<Longrightarrow>
   current_model_index (run env es s) < length MODELS"
  by (induction es arbitrary: s) (simp_all add: dispatch_cursor)

lemma label_strs_strings: "label_strs i (map StrLabel names) = Inr names"
  by (induction names arbitrary: i) simp_all

text \<open>The preview of a table whose column labels are all strings.\<close>

lemma data_preview_strings:
  "columns df = map StrLabel names \<Longrightarrow>
   data_preview filename df =
     Inr (PREVIEW_FILE @ filename @ [10, 10] @
          PREVIEW_SIZE @ str_nat (nrows df) @ PREVIEW_ROWS @
          str_nat (length names) @ PREVIEW_COLS @
          PREVIEW_COLUMNS @ join_strs (ascii '', '') names @ [10, 10] @
          PREVIEW_DATA @ to_string df)"
  by (simp add: data_preview_def join_def label_strs_strings)

lemma data_xlsx_suffix: "endswith (ascii ''data.xlsx'') (ascii ''.xlsx'')"
  by (simp add: endswith_def ascii_def)


lemma yearly_preview_eq:
  "data_preview (ascii ''data.xlsx'') yearly_table =
     Inl (TypeError (ascii ''sequence item 0: expected str instance, int found''))"
  by (simp add: data_preview_def join_def yearly_table_def str_nat.simps ascii_def)

text \<open>
  What the part of a handler after the user record does, for a user who has a history
  \<open>h\<close>: all four components of the state in terms of the one call of the fallback caller.
\<close>

lemma ask_and_report:
  fixes env and report :: "exn \<Rightarrow> pystr" and s u h
  assumes hist: "user_conversations s u = Some h"
  defines "res \<equiv> call_ai_with_fallback env h s"
  defines "fin \<equiv> (case ask_and_reply env u s of
                      (Some e, s3) \<Rightarrow> reply_text (report e) s3
                    | (None, s3) \<Rightarrow> s3)"
  shows "requests fin = requests (snd res)"
    and "current_model_index fin = current_model_index (snd res)"
    and "user_conversations fin = (user_conversations s)(u \<mapsto> h @ reply_records (fst res))"
    and "replies fin = replies s @ reply_texts report (fst res)"
proof -
  obtain r s1 where call: "call_ai_with_fallback env h s = (r, s1)"
    by (cases "call_ai_with_fallback env h s")
  with call_frame [of env h s] have s1: "user_conversations s1 = user_conversations s"
    "replies s1 = replies s"
    by simp_all
  have "requests fin = requests (snd res) \<and>
        current_model_index fin = current_model_index (snd res) \<and>
        user_conversations fin = (user_conversations s)(u \<mapsto> h @ reply_records (fst res)) \<and>
        replies fin = replies s @ reply_texts report (fst res)"
  proof (cases r)
    case (Inl e)
    with hist call s1 show ?thesis
      by (simp add: fin_def res_def ask_and_reply_def fun_upd_idem)
  next
    case (Inr p)
    obtain a m where p: "p = (a, m)" by (cases p)
    show ?thesis
    proof (cases a)
      case None
      with Inr p hist call s1 show ?thesis
        by (simp add: fin_def res_def ask_and_reply_def append_record_def)
    next
      case (Some t)
      with Inr p hist call s1 show ?thesis
        by (simp add: fin_def res_def ask_and_reply_def append_record_def replies_send_chunks)
    qed
  qed
  then show "requests fin = requests (snd res)"
    and "current_model_index fin = current_model_index (snd res)"
    and "user_conversations fin = (user_conversations s)(u \<mapsto> h @ reply_records (fst res))"
    and "replies fin = replies s @ reply_texts report (fst res)"
    by simp_all
qed

lemma asking_frame [simp]:
  "user_conversations (asking notice u r s) = (user_conversations s)(u \<mapsto> history_of s u @ [r])"
  "current_model_index (asking notice u r s) = current_model_index s"
  "requests (asking notice u r s) = requests s"
  "replies (asking notice u r s) = replies s @ [notice]"
  by (simp_all add: asking_def)

text \<open>The text handler runs lines 198 to 217 in the state \<open>asking SEARCHING u r s\<close>.\<close>

lemma reply_text_conversations:
  "reply_text t (s\<lparr>user_conversations := c\<rparr>) = (reply_text t s)\<lparr>user_conversations := c\<rparr>"
  by (simp add: reply_text_def)

lemma handle_text_asking:
  "handle_text env upd s =
     (case ask_and_reply env (effective_user_id upd)
             (asking SEARCHING (effective_user_id upd)
                \<lparr>role = ascii ''user'', content = Some (message_text upd)\<rparr> s) of
        (Some e, s3) \<Rightarrow> reply_text (report_text_error e) s3
      | (None, s3) \<Rightarrow> s3)"
  by (simp only: handle_text_unfold Let_def asking_def history_of_def
      reply_text_conversations report_text_error_def)

lemma handle_text_result:
  fixes env upd s
  defines "u \<equiv> effective_user_id upd"
  defines "r \<equiv> \<lparr>role = ascii ''user'', content = Some (message_text upd)\<rparr>"
  defines "res \<equiv> call_ai_with_fallback env (history_of s u @ [r]) (asking SEARCHING u r s)"
  shows "requests (handle_text env upd s) = requests (snd res)"
    and "current_model_index (handle_text env upd s) = current_model_index (snd res)"
    and "user_conversations (handle_text env upd s) =
           (user_conversations s)(u \<mapsto> history_of s u @ r # reply_records (fst res))"
    and "replies (handle_text env upd s) =
           replies s @ SEARCHING # reply_texts report_text_error (fst res)"
proof -
  have hist: "user_conversations (asking SEARCHING u r s) u = Some (history_of s u @ [r])"
    by simp
  note eff = ask_and_report [OF hist, where env = env and report = report_text_error]
  show "requests (handle_text env upd s) = requests (snd res)"
    using eff(1) by (simp add: handle_text_asking u_def r_def res_def)
  show "current_model_index (handle_text env upd s) = current_model_index (snd res)"
    using eff(2) by (simp add: handle_text_asking u_def r_def res_def)
  show "user_conversations (handle_text env upd s) =
           (user_conversations s)(u \<mapsto> history_of s u @ r # reply_records (fst res))"
    using eff(3) by (simp add: handle_text_asking u_def r_def res_def)
  show "replies (handle_text env upd s) =
           replies s @ SEARCHING # reply_texts report_text_error (fst res)"
    using eff(4) by (simp add: handle_text_asking u_def r_def res_def)
qed



lemma call_first_model_answers:
  assumes "current_model_index s < length MODELS"
  shows "call_ai_with_fallback (scenario 0 c p) h s =
     (Inr (c, Some (MODELS ! current_model_index s)),
      s\<lparr>requests := requests s @ [(MODELS ! current_model_index s, system_message # h)]\<rparr>)"
proof -
  have upt: "[0..<length MODELS] = 0 # [1..<length MODELS]"
    by (simp add: upt_conv_Cons length_MODELS)
  have ok: "create_completion (scenario 0 c p) (length (requests s))
      (MODELS ! current_model_index s) (system_message # h) = Inr c"
    by (simp add: scenario_def)
  show ?thesis
    by (simp only: call_ai_with_fallback_def upt fallback_loop_Cons_ok [OF assms ok])
qed

lemma reply_chunks_ok: "reply_chunks (ascii ''ok'') = [ascii ''ok'']"
  by (simp add: reply_chunks_def chunk_starts.simps slice_def ascii_def)

lemma chatted_state:
  "user_conversations chatted =
     [7 \<mapsto> [\<lparr>role = ascii ''user'', content = Some (ascii ''old'')\<rparr>,
           \<lparr>role = ascii ''assistant'', content = Some (ascii ''ok'')\<rparr>]]"
  "requests chatted =
     [(MODELS ! 0, [system_message, \<lparr>role = ascii ''user'', content = Some (ascii ''old'')\<rparr>])]"
  "current_model_index chatted = 0"
  "replies chatted = [SEARCHING, ascii ''ok'']"
proof -
  let ?r = "\<lparr>role = ascii ''user'', content = Some (ascii ''old'')\<rparr>"
  have c: "current_model_index (asking SEARCHING 7 ?r initial_state) < length MODELS"
    by (simp add: initial_state_def length_MODELS)
  note call = call_first_model_answers [OF c, of "Some (ascii ''ok'')" no_table
      "history_of initial_state 7 @ [?r]"]
  note res = handle_text_result [of "scenario 0 (Some (ascii ''ok'')) no_table"
      "text_update 7 (ascii ''old'')" initial_state]
  show "user_conversations chatted =
     [7 \<mapsto> [?r, \<lparr>role = ascii ''assistant'', content = Some (ascii ''ok'')\<rparr>]]"
    using res(3) by (simp add: chatted_def text_update_def call)
      (simp add: initial_state_def history_of_def)
  show "requests chatted = [(MODELS ! 0, [system_message, ?r])]"
    using res(1) by (simp add: chatted_def text_update_def call)
      (simp add: initial_state_def history_of_def)
  show "current_model_index chatted = 0"
    using res(2) by (simp add: chatted_def text_update_def call)
      (simp add: initial_state_def)
  show "replies chatted = [SEARCHING, ascii ''ok'']"
    using res(4) by (simp add: chatted_def text_update_def call reply_chunks_ok)
      (simp add: initial_state_def)
qed

section \<open>Claims about the handlers\<close>

text \<open>
  Claim C8. The cursor starts at 0, and it is a valid index into the model list after any
  sequence of invocations of the fallback caller, and after any sequence of incoming
  events, whatever the outside world answers.
\<close>

theorem cursor_stays_in_range:
  "current_model_index initial_state = 0 \<and>
   current_model_index (calls env hs initial_state) < length MODELS \<and>
   current_model_index (run env es initial_state) < length MODELS"
proof -
  have "current_model_index initial_state < length MODELS"
    by (simp add: initial_state_def length_MODELS)
  then show ?thesis
    by (simp add: calls_cursor run_cursor) (simp add: initial_state_def)
qed

text \<open>
  Claim C10. After each of the four handlers the calling user is a key of the
  conversation mapping. In the file handler this holds on every path, because the
  history is created before the file is looked at: a first-time user whose file has
  none of the three suffixes ends with the empty history.
\<close>

theorem handlers_establish_history:
  "effective_user_id upd \<in> dom (user_conversations (start upd s)) \<and>
   effective_user_id upd \<in> dom (user_conversations (reset upd s)) \<and>
   effective_user_id upd \<in> dom (user_conversations (handle_file env upd s)) \<and>
   effective_user_id upd \<in> dom (user_conversations (handle_text env upd s)) \<and>
   (user_conversations s (effective_user_id upd) = None \<and>
    \<not> endswith (document_file_name upd) (ascii ''.xlsx'') \<and>
    \<not> endswith (document_file_name upd) (ascii ''.xls'') \<and>
    \<not> endswith (document_file_name upd) (ascii ''.csv'') \<longrightarrow>
    user_conversations (handle_file env upd s) (effective_user_id upd) = Some [])"
proof (intro conjI impI)
  show "effective_user_id upd \<in> dom (user_conversations (start upd s))"
    by (simp add: start_def Let_def)
  show "effective_user_id upd \<in> dom (user_conversations (reset upd s))"
    by (simp add: reset_def Let_def)
  show "effective_user_id upd \<in> dom (user_conversations (handle_file env upd s))"
    using handle_file_invariants(3) [of env upd s] by (simp add: dom_def)
  from handle_text_effect(3) [of env upd s]
  show "effective_user_id upd \<in> dom (user_conversations (handle_text env upd s))"
    by auto
next
  assume a: "user_conversations s (effective_user_id upd) = None \<and>
    \<not> endswith (document_file_name upd) (ascii ''.xlsx'') \<and>
    \<not> endswith (document_file_name upd) (ascii ''.xls'') \<and>
    \<not> endswith (document_file_name upd) (ascii ''.csv'')"
  show "user_conversations (handle_file env upd s) (effective_user_id upd) = Some []"
  proof (cases "document_download upd")
    case (Inl d)
    with a show ?thesis
      by (simp add: handle_file_download_failed ensure_history_lookup)
  next
    case (Inr file_bytes)
    with a show ?thesis
      by (simp add: handle_file_unsupported ensure_history_lookup)
  qed
qed

theorem handlers_establish_history_witness:
  "user_conversations initial_state (effective_user_id (file_update 7 (ascii ''data.txt''))) = None \<and>
   \<not> endswith (document_file_name (file_update 7 (ascii ''data.txt''))) (ascii ''.xlsx'') \<and>
   \<not> endswith (document_file_name (file_update 7 (ascii ''data.txt''))) (ascii ''.xls'') \<and>
   \<not> endswith (document_file_name (file_update 7 (ascii ''data.txt''))) (ascii ''.csv'') \<and>
   user_conversations
     (handle_file (scenario 0 (Some (ascii ''ok'')) no_table) (file_update 7 (ascii ''data.txt''))
        initial_state) 7 = Some [] \<and>
   7 \<in> dom (user_conversations
     (handle_text (scenario 0 (Some (ascii ''ok'')) no_table) (text_update 7 (ascii ''hello''))
        initial_state))"
proof -
  have hyps: "user_conversations initial_state (effective_user_id (file_update 7 (ascii ''data.txt''))) = None"
    "\<not> endswith (document_file_name (file_update 7 (ascii ''data.txt''))) (ascii ''.xlsx'')"
    "\<not> endswith (document_file_name (file_update 7 (ascii ''data.txt''))) (ascii ''.xls'')"
    "\<not> endswith (document_file_name (file_update 7 (ascii ''data.txt''))) (ascii ''.csv'')"
    by (simp_all add: initial_state_def file_update_def endswith_def ascii_def)
  from handlers_establish_history [of "file_update 7 (ascii ''data.txt'')" initial_state
      "scenario 0 (Some (ascii ''ok'')) no_table"] hyps
  have "user_conversations
     (handle_file (scenario 0 (Some (ascii ''ok'')) no_table) (file_update 7 (ascii ''data.txt''))
        initial_state) 7 = Some []"
    by (simp add: file_update_def)
  moreover from handlers_establish_history [of "text_update 7 (ascii ''hello'')" initial_state
      "scenario 0 (Some (ascii ''ok'')) no_table"]
  have "7 \<in> dom (user_conversations
     (handle_text (scenario 0 (Some (ascii ''ok'')) no_table) (text_update 7 (ascii ''hello''))
        initial_state))"
    by (simp add: text_update_def)
  ultimately show ?thesis using hyps by blast
qed

text \<open>
  Claim C6. Let a user reset and then send a text, and let \<open>r\<close> be the user record with
  that text. The handler runs its \<^verbatim>\<open>try\<close> block, which invokes the fallback caller with the
  stored history, in the state \<open>asking SEARCHING u r (reset upd s)\<close>, where the history of
  the user is exactly \<open>[r]\<close>. Every request of the handler is a request of that call with
  the history \<open>[r]\<close>: it carries the system message and that one record, and from a valid
  cursor there is at least one. Only afterwards is the reply appended: the final history
  is \<open>r\<close> followed by the reply record of that call, if it returned one.
\<close>

theorem reset_then_text_history:
  assumes "effective_user_id upd' = effective_user_id upd"
  shows
    "user_conversations
       (asking SEARCHING (effective_user_id upd)
          \<lparr>role = ascii ''user'', content = Some (message_text upd')\<rparr> (reset upd s))
       (effective_user_id upd) =
       Some [\<lparr>role = ascii ''user'', content = Some (message_text upd')\<rparr>] \<and>
     handle_text env upd' (reset upd s) =
       (case ask_and_reply env (effective_user_id upd)
               (asking SEARCHING (effective_user_id upd)
                  \<lparr>role = ascii ''user'', content = Some (message_text upd')\<rparr> (reset upd s)) of
          (Some e, s3) \<Rightarrow> reply_text (report_text_error e) s3
        | (None, s3) \<Rightarrow> s3) \<and>
     requests (handle_text env upd' (reset upd s)) =
       requests (snd (call_ai_with_fallback env
          [\<lparr>role = ascii ''user'', content = Some (message_text upd')\<rparr>]
          (asking SEARCHING (effective_user_id upd)
             \<lparr>role = ascii ''user'', content = Some (message_text upd')\<rparr> (reset upd s)))) \<and>
     (\<exists>new. requests (handle_text env upd' (reset upd s)) = requests s @ new \<and>
        (\<forall>q \<in> set new.
           snd q = [system_message,
                    \<lparr>role = ascii ''user'', content = Some (message_text upd')\<rparr>]) \<and>
        (current_model_index s < length MODELS \<longrightarrow> new \<noteq> [])) \<and>
     user_conversations (handle_text env upd' (reset upd s)) (effective_user_id upd) =
       Some (\<lparr>role = ascii ''user'', content = Some (message_text upd')\<rparr> #
             reply_records (fst (call_ai_with_fallback env
               [\<lparr>role = ascii ''user'', content = Some (message_text upd')\<rparr>]
               (asking SEARCHING (effective_user_id upd)
                  \<lparr>role = ascii ''user'', content = Some (message_text upd')\<rparr>
                  (reset upd s))))) \<and>
     replies (handle_text env upd' (reset upd s)) =
       replies s @ [HISTORY_CLEARED, SEARCHING] @
       reply_texts report_text_error (fst (call_ai_with_fallback env
         [\<lparr>role = ascii ''user'', content = Some (message_text upd')\<rparr>]
         (asking SEARCHING (effective_user_id upd)
            \<lparr>role = ascii ''user'', content = Some (message_text upd')\<rparr> (reset upd s))))"
proof -
  let ?u = "effective_user_id upd"
  let ?r = "\<lparr>role = ascii ''user'', content = Some (message_text upd')\<rparr>"
  let ?s0 = "reset upd s"
  let ?s_mid = "asking SEARCHING ?u ?r ?s0"
  let ?res = "call_ai_with_fallback env [?r] ?s_mid"
  have cleared: "history_of ?s0 ?u = []"
    by (simp add: reset_def Let_def history_of_def)
  have s0: "requests ?s0 = requests s" "current_model_index ?s0 = current_model_index s"
    "replies ?s0 = replies s @ [HISTORY_CLEARED]"
    by (simp_all add: reset_def Let_def)
  have mid: "user_conversations ?s_mid ?u = Some [?r]"
    by (simp add: cleared)
  have run: "handle_text env upd' ?s0 =
       (case ask_and_reply env ?u ?s_mid of
          (Some e, s3) \<Rightarrow> reply_text (report_text_error e) s3
        | (None, s3) \<Rightarrow> s3)"
    using assms by (simp add: handle_text_asking)
  note res = handle_text_result [of env upd' ?s0]
  have req: "requests (handle_text env upd' ?s0) = requests (snd ?res)"
    using res(1) assms by (simp add: cleared)
  from call_requests [of env "[?r]" ?s_mid] obtain new where
    new: "requests (snd ?res) = requests ?s_mid @ new"
      "\<forall>q \<in> set new. snd q = system_message # [?r]"
      "current_model_index ?s_mid < length MODELS \<longrightarrow> new \<noteq> []"
    by blast
  have trace: "\<exists>new. requests (handle_text env upd' ?s0) = requests s @ new \<and>
        (\<forall>q \<in> set new. snd q = [system_message, ?r]) \<and>
        (current_model_index s < length MODELS \<longrightarrow> new \<noteq> [])"
    using req new s0 by (intro exI [of _ new]) simp
  have hist: "user_conversations (handle_text env upd' ?s0) ?u
      = Some (?r # reply_records (fst ?res))"
    using res(3) assms by (simp add: cleared)
  have sent: "replies (handle_text env upd' ?s0) =
      replies s @ [HISTORY_CLEARED, SEARCHING] @ reply_texts report_text_error (fst ?res)"
    using res(4) assms by (simp add: cleared s0)
  from mid run req trace hist sent show ?thesis
    by (intro conjI)
qed

theorem reset_then_text_history_witness:
  "effective_user_id (text_update 7 (ascii ''hello'')) = effective_user_id (text_update 7 (ascii ''old'')) \<and>
   user_conversations chatted 7 =
     Some [\<lparr>role = ascii ''user'', content = Some (ascii ''old'')\<rparr>,
           \<lparr>role = ascii ''assistant'', content = Some (ascii ''ok'')\<rparr>] \<and>
   requests (handle_text (scenario 0 (Some (ascii ''ok'')) no_table)
      (text_update 7 (ascii ''hello'')) (reset (text_update 7 (ascii ''old'')) chatted)) =
     [(MODELS ! 0, [system_message, \<lparr>role = ascii ''user'', content = Some (ascii ''old'')\<rparr>]),
      (MODELS ! 0, [system_message, \<lparr>role = ascii ''user'', content = Some (ascii ''hello'')\<rparr>])] \<and>
   user_conversations (handle_text (scenario 0 (Some (ascii ''ok'')) no_table)
      (text_update 7 (ascii ''hello'')) (reset (text_update 7 (ascii ''old'')) chatted)) 7 =
     Some [\<lparr>role = ascii ''user'', content = Some (ascii ''hello'')\<rparr>,
           \<lparr>role = ascii ''assistant'', content = Some (ascii ''ok'')\<rparr>]"
proof -
  let ?env = "scenario 0 (Some (ascii ''ok'')) no_table"
  let ?upd = "text_update 7 (ascii ''old'')"
  let ?upd' = "text_update 7 (ascii ''hello'')"
  let ?r = "\<lparr>role = ascii ''user'', content = Some (ascii ''hello'')\<rparr>"
  have hyp: "effective_user_id ?upd' = effective_user_id ?upd"
    by (simp add: text_update_def)
  have c: "current_model_index (asking SEARCHING 7 ?r (reset ?upd chatted)) < length MODELS"
    by (simp add: reset_def Let_def chatted_state length_MODELS)
  note call = call_first_model_answers [OF c, of "Some (ascii ''ok'')" no_table "[?r]"]
  have sel: "effective_user_id ?upd = 7" "message_text ?upd' = ascii ''hello''"
    by (simp_all add: text_update_def)
  note inst = reset_then_text_history [OF hyp, where env = ?env and s = chatted]
  from inst [THEN conjunct2, THEN conjunct2, THEN conjunct1]
  have "requests (handle_text ?env ?upd' (reset ?upd chatted)) =
      requests (snd (call_ai_with_fallback ?env [?r] (asking SEARCHING 7 ?r (reset ?upd chatted))))"
    by (simp only: sel)
  then have req: "requests (handle_text ?env ?upd' (reset ?upd chatted)) =
     [(MODELS ! 0, [system_message, \<lparr>role = ascii ''user'', content = Some (ascii ''old'')\<rparr>]),
      (MODELS ! 0, [system_message, ?r])]"
    by (simp add: call) (simp add: reset_def Let_def chatted_state)
  from inst [THEN conjunct2, THEN conjunct2, THEN conjunct2, THEN conjunct2, THEN conjunct1]
  have "user_conversations (handle_text ?env ?upd' (reset ?upd chatted)) 7 =
      Some (?r # reply_records (fst (call_ai_with_fallback ?env [?r]
          (asking SEARCHING 7 ?r (reset ?upd chatted)))))"
    by (simp only: sel)
  then have hist: "user_conversations (handle_text ?env ?upd' (reset ?upd chatted)) 7 =
     Some [?r, \<lparr>role = ascii ''assistant'', content = Some (ascii ''ok'')\<rparr>]"
    by (simp add: call)
  have before: "user_conversations chatted 7 =
     Some [\<lparr>role = ascii ''user'', content = Some (ascii ''old'')\<rparr>,
           \<lparr>role = ascii ''assistant'', content = Some (ascii ''ok'')\<rparr>]"
    by (simp add: chatted_state)
  from hyp before req hist show ?thesis
    by (intro conjI)
qed

text \<open>
  Claim C5, as the code has it. When the name of an uploaded file ends in none of
  \<^verbatim>\<open>.xlsx\<close>, \<^verbatim>\<open>.xls\<close> and \<^verbatim>\<open>.csv\<close>, the handler makes no request and leaves the cursor
  alone; the history of a user who has one is unaltered, and for a first-time user the
  empty history is created. It sends one reply: the unsupported-format message when the
  file was downloaded, and the error message of line 182 when the download failed.
\<close>

theorem unsupported_suffix_rejected:
  assumes "\<not> endswith (document_file_name upd) (ascii ''.xlsx'')"
    and "\<not> endswith (document_file_name upd) (ascii ''.xls'')"
    and "\<not> endswith (document_file_name upd) (ascii ''.csv'')"
  shows "requests (handle_file env upd s) = requests s \<and>
         current_model_index (handle_file env upd s) = current_model_index s \<and>
         user_conversations (handle_file env upd s) =
           (case user_conversations s (effective_user_id upd) of
              None \<Rightarrow> (user_conversations s)(effective_user_id upd \<mapsto> [])
            | Some h \<Rightarrow> user_conversations s) \<and>
         (\<forall>file_bytes. document_download upd = Inr file_bytes \<longrightarrow>
            replies (handle_file env upd s) = replies s @ [UNSUPPORTED_FORMAT]) \<and>
         (\<forall>d. document_download upd = Inl d \<longrightarrow>
            replies (handle_file env upd s) = replies s @ [FILE_ERROR @ d])"
proof (cases "document_download upd")
  case (Inl d)
  then show ?thesis
    by (simp add: handle_file_download_failed ensure_history_conversations)
next
  case (Inr file_bytes)
  with assms show ?thesis
    by (simp add: handle_file_unsupported ensure_history_conversations)
qed

theorem unsupported_suffix_rejected_witness:
  "\<not> endswith (document_file_name (file_update 7 (ascii ''data.txt''))) (ascii ''.xlsx'') \<and>
   \<not> endswith (document_file_name (file_update 7 (ascii ''data.txt''))) (ascii ''.xls'') \<and>
   \<not> endswith (document_file_name (file_update 7 (ascii ''data.txt''))) (ascii ''.csv'') \<and>
   document_download (file_update 7 (ascii ''data.txt'')) = Inr [80, 75, 3, 4] \<and>
   replies (handle_file (scenario 0 (Some (ascii ''ok'')) no_table) (file_update 7 (ascii ''data.txt''))
      (start (text_update 7 []) initial_state)) = [GREETING, UNSUPPORTED_FORMAT] \<and>
   requests (handle_file (scenario 0 (Some (ascii ''ok'')) no_table) (file_update 7 (ascii ''data.txt''))
      (start (text_update 7 []) initial_state)) = [] \<and>
   user_conversations (handle_file (scenario 0 (Some (ascii ''ok'')) no_table)
      (file_update 7 (ascii ''data.txt'')) (start (text_update 7 []) initial_state)) 7 = Some []"
proof -
  have hyps: "\<not> endswith (document_file_name (file_update 7 (ascii ''data.txt''))) (ascii ''.xlsx'')"
    "\<not> endswith (document_file_name (file_update 7 (ascii ''data.txt''))) (ascii ''.xls'')"
    "\<not> endswith (document_file_name (file_update 7 (ascii ''data.txt''))) (ascii ''.csv'')"
    by (simp_all add: file_update_def endswith_def ascii_def)
  have download: "document_download (file_update 7 (ascii ''data.txt'')) = Inr [80, 75, 3, 4]"
    by (simp add: file_update_def)
  from unsupported_suffix_rejected [OF hyps, where env = "scenario 0 (Some (ascii ''ok'')) no_table"
      and s = "start (text_update 7 []) initial_state"] hyps download
  show ?thesis
    by (simp add: start_def Let_def initial_state_def text_update_def file_update_def)
qed

text \<open>
  The claim as the specification words it allows no state mutation at all. A first-time
  user who uploads \<^verbatim>\<open>data.txt\<close> gets the unsupported-format message, and the conversation
  mapping has a new key afterwards.
\<close>

theorem unsupported_suffix_counterexample:
  "\<not> endswith (ascii ''data.txt'') (ascii ''.xlsx'') \<and>
   \<not> endswith (ascii ''data.txt'') (ascii ''.xls'') \<and>
   \<not> endswith (ascii ''data.txt'') (ascii ''.csv'') \<and>
   replies (handle_file (scenario 0 (Some (ascii ''ok'')) no_table) (file_update 7 (ascii ''data.txt''))
      initial_state) = [UNSUPPORTED_FORMAT] \<and>
   user_conversations initial_state 7 = None \<and>
   user_conversations (handle_file (scenario 0 (Some (ascii ''ok'')) no_table)
      (file_update 7 (ascii ''data.txt'')) initial_state) 7 = Some [] \<and>
   user_conversations (handle_file (scenario 0 (Some (ascii ''ok'')) no_table)
      (file_update 7 (ascii ''data.txt'')) initial_state) \<noteq> user_conversations initial_state"
proof -
  have suffix: "\<not> endswith (ascii ''data.txt'') (ascii ''.xlsx'')"
    "\<not> endswith (ascii ''data.txt'') (ascii ''.xls'')"
    "\<not> endswith (ascii ''data.txt'') (ascii ''.csv'')"
    by (simp_all add: endswith_def ascii_def)
  then have run: "handle_file (scenario 0 (Some (ascii ''ok'')) no_table)
      (file_update 7 (ascii ''data.txt'')) initial_state =
      reply_text UNSUPPORTED_FORMAT (ensure_history 7 initial_state)"
    by (simp add: handle_file_unsupported file_update_def)
  have before: "user_conversations initial_state 7 = None"
    by (simp add: initial_state_def)
  then have after: "user_conversations (handle_file (scenario 0 (Some (ascii ''ok'')) no_table)
      (file_update 7 (ascii ''data.txt'')) initial_state) 7 = Some []"
    by (simp add: run ensure_history_lookup)
  from before after have "user_conversations (handle_file (scenario 0 (Some (ascii ''ok'')) no_table)
      (file_update 7 (ascii ''data.txt'')) initial_state) \<noteq> user_conversations initial_state"
    by (metis option.distinct(1))
  moreover have "replies (handle_file (scenario 0 (Some (ascii ''ok'')) no_table)
      (file_update 7 (ascii ''data.txt'')) initial_state) = [UNSUPPORTED_FORMAT]"
    by (simp add: run) (simp add: initial_state_def)
  ultimately show ?thesis
    using suffix before after by blast
qed




text \<open>
  Claim C7, on a table that the code can receive. \<^verbatim>\<open>data.xlsx\<close> has 10 rows and three
  columns whose header cells hold the numbers 2023, 2024 and 2025, so the parser succeeds
  and the column labels are integers. Line 154 joins the labels as strings and raises a
  \<^verbatim>\<open>TypeError\<close> at the first one: no preview is built, the only reply is the error message
  of line 182, nothing is appended to the history and no request is made.
\<close>

theorem numeric_headers_break_preview:
  "endswith (document_file_name (file_update 7 (ascii ''data.xlsx''))) (ascii ''.xlsx'') \<and>
   read_excel (scenario 0 (Some (ascii ''ok'')) (Inr yearly_table)) [80, 75, 3, 4] = Inr yearly_table \<and>
   nrows yearly_table = 10 \<and> length (columns yearly_table) = 3 \<and>
   data_preview (ascii ''data.xlsx'') yearly_table =
     Inl (TypeError (ascii ''sequence item 0: expected str instance, int found'')) \<and>
   replies (handle_file (scenario 0 (Some (ascii ''ok'')) (Inr yearly_table))
      (file_update 7 (ascii ''data.xlsx'')) initial_state) =
     [FILE_ERROR @ ascii ''sequence item 0: expected str instance, int found''] \<and>
   user_conversations (handle_file (scenario 0 (Some (ascii ''ok'')) (Inr yearly_table))
      (file_update 7 (ascii ''data.xlsx'')) initial_state) 7 = Some [] \<and>
   requests (handle_file (scenario 0 (Some (ascii ''ok'')) (Inr yearly_table))
      (file_update 7 (ascii ''data.xlsx'')) initial_state) = []"
proof -
  have run: "handle_file (scenario 0 (Some (ascii ''ok'')) (Inr yearly_table))
      (file_update 7 (ascii ''data.xlsx'')) initial_state =
    reply_text (FILE_ERROR @ ascii ''sequence item 0: expected str instance, int found'')
      (ensure_history 7 initial_state)"
    by (simp add: handle_file_def handle_file_try_def Let_def yearly_preview_eq file_update_def
        scenario_def data_xlsx_suffix)
  show ?thesis
    unfolding run
    by (simp add: yearly_preview_eq file_update_def scenario_def data_xlsx_suffix
        ensure_history_lookup)
       (simp add: initial_state_def yearly_table_def)
qed

end
